theory Spec2Isabelle
  imports Complex_Main "HOL-Library.State_Monad"
begin

section \<open>The k6 load-test scripts of MixChat\<close>

text \<open>
  The repository's backend part consists of k6 scripts. Each script exports
  \<^verbatim>\<open>options\<close>, \<^verbatim>\<open>setup\<close>, a default function run once per iteration of a virtual
  user, and \<^verbatim>\<open>teardown\<close>. The scripts are referred to by short tags:
  \<^item> \<open>comp\<close>: \<^verbatim>\<open>chat-comprehensive-load-test.js\<close>
  \<^item> \<open>dg\<close>: \<^verbatim>\<open>chat-direct-group-load-test.js\<close>
  \<^item> \<open>stress\<close>: \<^verbatim>\<open>chat-ai-stress-test.js\<close>
  \<^item> \<open>cai\<close>: \<^verbatim>\<open>chat-comprehensive-with-ai-load-test.js\<close>
  \<^item> \<open>conc\<close>: the concurrency script that follows the README
  \<^item> \<open>msgread\<close>: the message-read script with a fixed stage list
\<close>

subsection \<open>Load profiles\<close>

record stage =
  duration :: string
  target :: nat

definition stg :: "string \<Rightarrow> nat \<Rightarrow> stage" where
  "stg d t = \<lparr>duration = d, target = t\<rparr>"

text \<open>\<^verbatim>\<open>LOAD_PROFILES\<close> of each script, as the association list the object literal is.\<close>

definition comp_LOAD_PROFILES :: "(string \<times> stage list) list" where
  "comp_LOAD_PROFILES =
    [(''short'', [stg ''30s'' 20, stg ''1m'' 50, stg ''1m'' 100, stg ''30s'' 0]),
     (''medium'', [stg ''1m'' 20, stg ''2m'' 100, stg ''2m'' 200, stg ''1m'' 300, stg ''30s'' 0]),
     (''full'', [stg ''1m'' 20, stg ''2m'' 100, stg ''2m'' 300, stg ''2m'' 500,
                 stg ''30s'' 800, stg ''1m'' 100, stg ''30s'' 0])]"

definition dg_LOAD_PROFILES :: "(string \<times> stage list) list" where
  "dg_LOAD_PROFILES =
    [(''short'', [stg ''10s'' 10, stg ''20s'' 30, stg ''20s'' 60, stg ''10s'' 0]),
     (''medium'', [stg ''20s'' 20, stg ''30s'' 50, stg ''40s'' 80, stg ''40s'' 120,
                   stg ''30s'' 150, stg ''20s'' 0]),
     (''full'', [stg ''20s'' 20, stg ''30s'' 50, stg ''40s'' 80, stg ''40s'' 120,
                 stg ''40s'' 150, stg ''20s'' 0])]"

definition stress_LOAD_PROFILES :: "(string \<times> stage list) list" where
  "stress_LOAD_PROFILES =
    [(''light'', [stg ''30s'' 2, stg ''1m'' 5, stg ''1m'' 10, stg ''30s'' 0]),
     (''medium'', [stg ''30s'' 2, stg ''1m'' 5, stg ''1m'' 10, stg ''1m'' 20, stg ''1m'' 5,
                   stg ''30s'' 0]),
     (''full'', [stg ''30s'' 2, stg ''1m'' 5, stg ''1m'' 10, stg ''1m'' 20, stg ''1m'' 30,
                 stg ''1m'' 50, stg ''1m'' 5, stg ''30s'' 0])]"

definition cai_LOAD_PROFILES :: "(string \<times> stage list) list" where
  "cai_LOAD_PROFILES =
    [(''short'', [stg ''30s'' 20, stg ''1m'' 50, stg ''1m'' 100, stg ''30s'' 0]),
     (''medium'', [stg ''1m'' 30, stg ''2m'' 100, stg ''2m'' 200, stg ''2m'' 300, stg ''1m'' 50,
                   stg ''30s'' 0]),
     (''full'', [stg ''1m'' 30, stg ''2m'' 100, stg ''2m'' 200, stg ''2m'' 350, stg ''2m'' 500,
                 stg ''1m'' 700, stg ''1m'' 100, stg ''30s'' 0])]"

definition conc_LOAD_PROFILES :: "(string \<times> stage list) list" where
  "conc_LOAD_PROFILES =
    [(''single'', [stg ''10s'' 10, stg ''30s'' 50, stg ''30s'' 100, stg ''10s'' 200,
                   stg ''30s'' 20, stg ''10s'' 0]),
     (''multi'', [stg ''10s'' 10, stg ''30s'' 100, stg ''30s'' 200, stg ''30s'' 50,
                  stg ''10s'' 0]),
     (''spike'', [stg ''10s'' 10, stg ''5s'' 500, stg ''20s'' 10, stg ''5s'' 500,
                  stg ''20s'' 10, stg ''10s'' 0])]"

text \<open>The message-read script has no profile table: \<^verbatim>\<open>options.stages\<close> is one fixed list.\<close>

definition msgread_stages :: "stage list" where
  "msgread_stages =
    [stg ''30s'' 50, stg ''1m'' 50, stg ''30s'' 100, stg ''1m'' 100, stg ''30s'' 200,
     stg ''1m'' 200, stg ''30s'' 0]"

text \<open>
  \<^verbatim>\<open>LOAD_PROFILES[TEST_DURATION]\<close> is a property read on an object literal. It
  finds the literal's own keys and, for any other name, the members that every
  object inherits from \<^verbatim>\<open>Object.prototype\<close>; a name that is neither reads as
  \<^verbatim>\<open>undefined\<close>. The read itself raises nothing. An inherited member is a
  function, whose \<^verbatim>\<open>length\<close> is a number, or (for \<^verbatim>\<open>__proto__\<close>) an object
  without a \<^verbatim>\<open>length\<close>: reading \<^verbatim>\<open>.length\<close> of it raises nothing either.
\<close>

datatype 'a member = Undefined | Own 'a | Inherited

definition Object_prototype :: "string list" where
  "Object_prototype =
     [''constructor'', ''hasOwnProperty'', ''isPrototypeOf'', ''propertyIsEnumerable'',
      ''toLocaleString'', ''toString'', ''valueOf'', ''__proto__'', ''__defineGetter__'',
      ''__defineSetter__'', ''__lookupGetter__'', ''__lookupSetter__'']"

definition profile_of :: "(string \<times> stage list) list \<Rightarrow> string \<Rightarrow> stage list member" where
  "profile_of profiles name =
     (case map_of profiles name of
        Some stages \<Rightarrow> Own stages
      | None \<Rightarrow> if name \<in> set Object_prototype then Inherited else Undefined)"

text \<open>Every stage list a script can be configured with, over all scripts.\<close>

definition all_stage_lists :: "stage list list" where
  "all_stage_lists =
     map snd (comp_LOAD_PROFILES @ dg_LOAD_PROFILES @ stress_LOAD_PROFILES
              @ cai_LOAD_PROFILES @ conc_LOAD_PROFILES) @ [msgread_stages]"

text \<open>The target of the last stage; \<open>None\<close> for a list with no stage.\<close>

definition final_target :: "stage list \<Rightarrow> nat option" where
  "final_target stages = (case rev stages of [] \<Rightarrow> None | s # _ \<Rightarrow> Some (target s))"

subsection \<open>Scenario dispatch\<close>

text \<open>
  Each default function draws \<^verbatim>\<open>randomIntBetween(0, 99)\<close> and runs one scenario,
  chosen by an \<^verbatim>\<open>if / else if / else\<close> chain of \<^verbatim>\<open>userType < t\<close> tests. The chain
  is the function \<open>*_dispatch\<close> below; the default functions further down run the
  scenario it names.
\<close>

datatype comp_scenario = CasualUser | ActiveChat | RoomManager | AIChat

definition comp_dispatch :: "int \<Rightarrow> comp_scenario" where
  "comp_dispatch userType =
     (if userType < 60 then CasualUser
      else if userType < 90 then ActiveChat
      else if userType < 95 then RoomManager
      else AIChat)"

datatype dg_scenario =
  DirectChatFocused | GroupChatCasual | GroupChatActive | DgRoomManager | MixedUser

definition dg_dispatch :: "int \<Rightarrow> dg_scenario" where
  "dg_dispatch userType =
     (if userType < 20 then DirectChatFocused
      else if userType < 70 then GroupChatCasual
      else if userType < 90 then GroupChatActive
      else if userType < 95 then DgRoomManager
      else MixedUser)"

datatype stress_scenario = RolePlay | TutorPersonal | TutorSimilar | Feedback | MixedAI

definition stress_dispatch :: "int \<Rightarrow> stress_scenario" where
  "stress_dispatch scenarioType =
     (if scenarioType < 30 then RolePlay
      else if scenarioType < 55 then TutorPersonal
      else if scenarioType < 75 then TutorSimilar
      else if scenarioType < 90 then Feedback
      else MixedAI)"

datatype cai_scenario =
  TranslationFocused | FeedbackFocused | AIChatFocused | CaiCasualUser | ActiveUser
  | CaiRoomManager

definition cai_dispatch :: "int \<Rightarrow> cai_scenario" where
  "cai_dispatch userType =
     (if userType < 20 then TranslationFocused
      else if userType < 40 then FeedbackFocused
      else if userType < 55 then AIChatFocused
      else if userType < 85 then CaiCasualUser
      else if userType < 95 then ActiveUser
      else CaiRoomManager)"

text \<open>
  The same chains read as tables of (threshold, scenario) pairs, in the order of
  the tests; the final \<^verbatim>\<open>else\<close> is the entry with threshold 100, the end of the
  range of the draw.
\<close>

definition comp_table :: "(int \<times> comp_scenario) list" where
  "comp_table = [(60, CasualUser), (90, ActiveChat), (95, RoomManager), (100, AIChat)]"

definition dg_table :: "(int \<times> dg_scenario) list" where
  "dg_table = [(20, DirectChatFocused), (70, GroupChatCasual), (90, GroupChatActive),
               (95, DgRoomManager), (100, MixedUser)]"

definition stress_table :: "(int \<times> stress_scenario) list" where
  "stress_table = [(30, RolePlay), (55, TutorPersonal), (75, TutorSimilar), (90, Feedback),
                   (100, MixedAI)]"

definition cai_table :: "(int \<times> cai_scenario) list" where
  "cai_table = [(20, TranslationFocused), (40, FeedbackFocused), (55, AIChatFocused),
                (85, CaiCasualUser), (95, ActiveUser), (100, CaiRoomManager)]"

text \<open>
  The band of an entry runs from the previous threshold (0 for the first entry) up
  to, and excluding, its own. \<open>hits d\<close> lists the scenarios whose band holds the
  draw \<open>d\<close>: no scenario for a gap, several for an overlap.
\<close>

fun bands :: "int \<Rightarrow> (int \<times> 'a) list \<Rightarrow> (int \<times> int \<times> 'a) list" where
  "bands lo [] = []"
| "bands lo ((t, sc) # rest) = (lo, t, sc) # bands t rest"

fun hits :: "int \<Rightarrow> (int \<times> int \<times> 'a) list \<Rightarrow> 'a list" where
  "hits d [] = []"
| "hits d ((lo, hi, sc) # rest) = (if lo \<le> d \<and> d < hi then sc # hits d rest else hits d rest)"

subsection \<open>Users, rooms, requests and responses\<close>

text \<open>
  The users are generated from a template: user \<open>i\<close> has the address
  \<^verbatim>\<open>test<i>@test.com\<close> and the nickname \<^verbatim>\<open>TestUser<i>\<close>. The two templates
  are kept as constructors applied to \<open>i\<close>.
\<close>

datatype email = TestEmail nat

datatype nickname = TestUser nat

record user =
  u_email :: email
  u_password :: string
  u_id :: nat
  u_nickname :: nickname

definition mk_user :: "nat \<Rightarrow> user" where
  "mk_user i = \<lparr>u_email = TestEmail i, u_password = ''test1234'', u_id = i,
               u_nickname = TestUser i\<rparr>"

text \<open>The \<^verbatim>\<open>users\<close> array: 100 users in comp, dg and cai, 50 in stress.\<close>

definition users :: "user list" where
  "users = map mk_user [1..<101]"

definition stress_users :: "user list" where
  "stress_users = map mk_user [1..<51]"

datatype chat_room_type = DIRECT | GROUP | AI

datatype ai_room_type = ROLE_PLAY | TUTOR_PERSONAL | TUTOR_SIMILAR

text \<open>
  A room as the backend describes it, with the fields the scripts read:
  \<^verbatim>\<open>id\<close>, \<^verbatim>\<open>name\<close>, \<^verbatim>\<open>password\<close>, \<^verbatim>\<open>hasPassword\<close>, \<^verbatim>\<open>roomType\<close>, and
  whether it has a \<^verbatim>\<open>partner\<close> property (a direct room).
\<close>

record room =
  r_id :: nat
  r_name :: string
  r_password :: "string option"
  r_hasPassword :: bool
  r_partner :: bool
  r_roomType :: "ai_room_type option"

text \<open>
  The requests the scripts send. A request keeps the endpoint, the bearer token and
  the parameters that select what is asked for; free text (message contents, room
  names and descriptions) is left out.
\<close>

datatype request =
    LoginReq email string
  | DirectListReq string
  | GroupListReq string
  | AIListReq string
  | PublicListReq string
  | JoinReq string nat "string option"
  | MessagesReq string nat chat_room_type "nat option" nat
  | FilesReq string nat chat_room_type bool
  | TestMessageReq "nat option" nat chat_room_type
  | CreateDirectReq string nat
  | CreateGroupReq string "nat list" string
  | CreateAIReq string nat ai_room_type
  | InviteReq string nat nat
  | TransferReq string nat nat
  | LeaveReq string nat chat_room_type
  | FeedbackReq string
  | CleanupReq string

text \<open>
  A response: the status, k6's \<^verbatim>\<open>timed_out\<close> flag as the scripts read it, and the
  \<^verbatim>\<open>data\<close> member of the JSON body. The body of a 200 response is taken to be a
  JSON object, and its \<^verbatim>\<open>data\<close> to be \<^verbatim>\<open>null\<close>, a string, an array of rooms, a
  room, or another object. A room has the members of the record above and no
  \<^verbatim>\<open>length\<close>; of the members of another object the scripts read none but
  \<^verbatim>\<open>messagePageResp\<close>, and it has no \<^verbatim>\<open>length\<close> either.
\<close>

datatype json = JNull | JString string | JRooms "room list" | JRoom room | JObject

record response =
  status :: int
  timed_out :: bool
  body_data :: json

fun string_of :: "json \<Rightarrow> string option" where
  "string_of (JString t) = Some t"
| "string_of _ = None"

fun rooms_of :: "json \<Rightarrow> room list" where
  "rooms_of (JRooms rs) = rs"
| "rooms_of _ = []"

fun room_of :: "json \<Rightarrow> room option" where
  "room_of (JRoom r) = Some r"
| "room_of _ = None"

text \<open>JavaScript truthiness of a value that is a string, \<^verbatim>\<open>null\<close> or \<^verbatim>\<open>undefined\<close>.\<close>

fun truthy :: "string option \<Rightarrow> bool" where
  "truthy None = False"
| "truthy (Some t) = (t \<noteq> [])"

text \<open>
  What the scripts do with a value of unknown kind: test it for truth, test
  \<^verbatim>\<open>v.length > 0\<close>, and splice it into a template literal such as
  \<^verbatim>\<open>`Bearer ${token}`\<close>. Only \<^verbatim>\<open>null\<close> and the empty string are not truthy. An array
  is rendered as its elements joined by commas, an object as \<^verbatim>\<open>[object Object]\<close>.
\<close>

fun js_truthy :: "json \<Rightarrow> bool" where
  "js_truthy JNull = False"
| "js_truthy (JString t) = (t \<noteq> [])"
| "js_truthy (JRooms rs) = True"
| "js_truthy (JRoom r) = True"
| "js_truthy JObject = True"

fun has_length :: "json \<Rightarrow> bool" where
  "has_length JNull = False"
| "has_length (JString t) = (t \<noteq> [])"
| "has_length (JRooms rs) = (rs \<noteq> [])"
| "has_length (JRoom r) = False"
| "has_length JObject = False"

fun comma_joined :: "string list \<Rightarrow> string" where
  "comma_joined [] = []"
| "comma_joined [t] = t"
| "comma_joined (t # u # rest) = t @ '','' @ comma_joined (u # rest)"

fun js_text :: "json \<Rightarrow> string" where
  "js_text JNull = ''null''"
| "js_text (JString t) = t"
| "js_text (JRooms rs) = comma_joined (map (\<lambda>r. ''[object Object]'') rs)"
| "js_text (JRoom r) = ''[object Object]''"
| "js_text JObject = ''[object Object]''"

subsection \<open>Metrics, events and the state of a run\<close>

text \<open>The custom metrics, named as the scripts' variables.\<close>

datatype metric =
    directChatCreated | groupChatCreated | aiChatCreated | messagesReceived | messagesSent
  | roomsJoined | membersInvited | ownershipTransferred
  | messageReadLatency | messageSendLatency | roomListLatency | aiResponseLatency
  | directRoomListLatency | groupRoomListLatency | publicRoomListLatency
  | roomCreateLatency | roomJoinLatency
  | authSuccessRate | messageSuccessRate | roomCreateSuccessRate | permissionDeniedRate
  | activeUsers | activeRooms | activeDirectRooms | activeGroupRooms
  | aiMessagesTotal | aiRoomMessages | aiResponseSuccess | aiResponseFailed
  | aiResponseTimeout | aiRolePlayLatency | aiTutorPersonalLatency | aiTutorSimilarLatency
  | aiLatencyHistogram | aiSuccessRate | aiTimeoutRate | aiErrorRate
  | translationRequested | translationByOllama | translationByOpenAI | translationFailed
  | translationLatency | translationOllamaLatency | translationOpenAILatency
  | translationSuccessRate | translationOllamaSuccessRate | translationFallbackRate

text \<open>The \<^verbatim>\<open>check\<close> calls, named after the function that makes them.\<close>

datatype check_label =
    ck_login_status | ck_login_token | ck_create_direct | ck_create_group | ck_create_ai
  | ck_direct_list | ck_group_list | ck_ai_list | ck_join | ck_get_messages | ck_send
  | ck_leave | ck_invite | ck_transfer | ck_feedback | ck_ai_send | ck_ai_reply | ck_translate

text \<open>What \<^verbatim>\<open>console.error\<close> reports.\<close>

datatype report =
    LoginNoToken email | LoginFailed email | OwnerLoginFailed | CreateDirectFailed
  | CreateGroupFailed | DirectListFailed | GroupListFailed | JoinFailed nat
  | GetMessagesFailed nat | SendFailed | AITimeout nat | AIError nat | CleanupNoToken
  | CleanupFailed

text \<open>
  What a script does to the outside, in order: a request sent, a \<^verbatim>\<open>check\<close>
  recorded, \<^verbatim>\<open>add\<close> called on a counter, rate or gauge with its argument
  (\<^verbatim>\<open>true\<close> as 1, \<^verbatim>\<open>false\<close> as 0), \<^verbatim>\<open>add\<close> called on a trend or histogram (the
  measured latency is not modelled), a \<^verbatim>\<open>sleep\<close>, a \<^verbatim>\<open>console.error\<close>.
\<close>

datatype event =
    Http request
  | Check check_label bool
  | Add metric int
  | Observe metric
  | Sleep rat
  | ConsoleError report

text \<open>
  The world a script runs in: the backend's answer to the \<open>n\<close>-th request of the
  run, the \<open>n\<close>-th value \<^verbatim>\<open>Math.random()\<close> returns, and the milliseconds the
  script measures around the \<open>n\<close>-th request. The state of a run is the events so
  far and the counts of requests and of random values.
\<close>

record world =
  server :: "nat \<Rightarrow> request \<Rightarrow> response"
  rnd :: "nat \<Rightarrow> rat"
  latency :: "nat \<Rightarrow> nat"

record st =
  trace :: "event list"
  http_n :: nat
  rnd_n :: nat

abbreviation return :: "'a \<Rightarrow> (st, 'a) state" where
  "return \<equiv> State_Monad.return"

definition emit :: "event \<Rightarrow> (st, unit) state" where
  "emit e = State (\<lambda>s. ((), s\<lparr>trace := trace s @ [e]\<rparr>))"

definition http :: "world \<Rightarrow> request \<Rightarrow> (st, response) state" where
  "http w r = State (\<lambda>s. (server w (http_n s) r,
                           s\<lparr>trace := trace s @ [Http r], http_n := Suc (http_n s)\<rparr>))"

text \<open>\<^verbatim>\<open>check(res, {label: predicate})\<close> records the outcome and returns it.\<close>

definition check :: "check_label \<Rightarrow> bool \<Rightarrow> (st, bool) state" where
  "check l b = do { emit (Check l b); return b }"

definition sleep :: "rat \<Rightarrow> (st, unit) state" where
  "sleep d = emit (Sleep d)"

subsection \<open>Numbers and random draws\<close>

text \<open>
  A JavaScript number is an IEEE 754 double, and every operation rounds its exact
  result to the nearest double, ties to the even significand. The finite doubles
  are taken as the rationals they denote. \<open>exponent x\<close> is the binary exponent of
  the binade of \<open>x\<close>, not below -1022 (smaller values are subnormal), and \<open>ulp x\<close>
  the distance between neighbouring doubles there. Overflow does not occur in the
  scripts: their numbers are far below \<open>2 ^ 1024\<close>.
\<close>

fun halvings :: "nat \<Rightarrow> rat \<Rightarrow> nat" where
  "halvings 0 x = 0"
| "halvings (Suc n) x = (if x < 2 then 0 else Suc (halvings n (x / 2)))"

fun doublings :: "nat \<Rightarrow> rat \<Rightarrow> nat" where
  "doublings 0 x = 0"
| "doublings (Suc n) x = (if 1 \<le> x then 0 else Suc (doublings n (2 * x)))"

definition exponent :: "rat \<Rightarrow> int" where
  "exponent x = (if 1 \<le> \<bar>x\<bar> then int (halvings 1023 \<bar>x\<bar>) else - int (doublings 1022 \<bar>x\<bar>))"

definition pow2 :: "int \<Rightarrow> rat" where
  "pow2 e = (if 0 \<le> e then 2 ^ nat e else 1 / 2 ^ nat (- e))"

definition ulp :: "rat \<Rightarrow> rat" where
  "ulp x = pow2 (exponent x - 52)"

definition round_half_even :: "rat \<Rightarrow> int" where
  "round_half_even y =
     (let f = \<lfloor>y\<rfloor>; d = y - of_int f
      in if d < 1 / 2 then f else if 1 / 2 < d then f + 1 else if even f then f else f + 1)"

text \<open>
  The double nearest to \<open>x\<close>: the value of a decimal literal, and the result of an
  operation whose exact result is \<open>x\<close>. \<open>double_below x\<close> is the greatest double
  that is at most \<open>x\<close>, for \<open>x\<close> not negative.
\<close>

definition double_of :: "rat \<Rightarrow> rat" where
  "double_of x = of_int (round_half_even (x / ulp x)) * ulp x"

definition double_below :: "rat \<Rightarrow> rat" where
  "double_below x = of_int \<lfloor>x / ulp x\<rfloor> * ulp x"

text \<open>
  \<^verbatim>\<open>Math.random()\<close> returns a double in [0,1): the world's \<open>n\<close>-th value, brought
  into that range. \<^verbatim>\<open>randomIntBetween\<close> and \<^verbatim>\<open>randomItem\<close> are those of k6-utils:
  \<^verbatim>\<open>Math.floor(Math.random() * (max - min + 1) + min)\<close> and
  \<^verbatim>\<open>arr[Math.floor(Math.random() * arr.length)]\<close>, computed in doubles. The
  scripts call \<^verbatim>\<open>randomItem\<close> on arrays they know to be non-empty.
\<close>

definition Math_random :: "world \<Rightarrow> (st, rat) state" where
  "Math_random w =
     State (\<lambda>s. (double_below (frac (rnd w (rnd_n s))), s\<lparr>rnd_n := Suc (rnd_n s)\<rparr>))"

definition randomIntBetween :: "world \<Rightarrow> int \<Rightarrow> int \<Rightarrow> (st, int) state" where
  "randomIntBetween w lo hi = do {
     r \<leftarrow> Math_random w;
     return \<lfloor>double_of (double_of (r * of_int (hi - lo + 1)) + of_int lo)\<rfloor>
   }"

definition randomItem :: "world \<Rightarrow> 'a list \<Rightarrow> (st, 'a) state" where
  "randomItem w xs = do {
     r \<leftarrow> Math_random w;
     return (xs ! nat \<lfloor>double_of (r * of_nat (length xs))\<rfloor>)
   }"

text \<open>\<^verbatim>\<open>for (const x of xs) body(x)\<close>, and a loop that builds up a value.\<close>

primrec for_each :: "'a list \<Rightarrow> ('a \<Rightarrow> (st, unit) state) \<Rightarrow> (st, unit) state" where
  "for_each [] body = return ()"
| "for_each (x # xs) body = do { body x; for_each xs body }"

primrec fold_each :: "'a list \<Rightarrow> ('a \<Rightarrow> 'b \<Rightarrow> (st, 'b) state) \<Rightarrow> 'b \<Rightarrow> (st, 'b) state" where
  "fold_each [] body acc = return acc"
| "fold_each (x # xs) body acc = do { acc' \<leftarrow> body x acc; fold_each xs body acc' }"

subsection \<open>Runs that end early\<close>

text \<open>Reading a property of \<^verbatim>\<open>undefined\<close> raises a TypeError.\<close>

datatype js_error = TypeError

text \<open>
  A function of a script returns, or it ends early: an exception is raised, which
  no script catches, or an answer carries data of a kind that the function's
  callers are not written for (a string or an object where they take an array of
  rooms, say). What the script does with such data depends on members that the
  data does not have; the run is not followed beyond that point, and nothing is
  stated about it.
\<close>

datatype halt = Raised js_error | Untyped

text \<open>\<open>attempt m f\<close> runs \<open>m\<close> and, if it returns, goes on with \<open>f\<close>.\<close>

definition attempt ::
  "(st, halt + 'a) state \<Rightarrow> ('a \<Rightarrow> (st, halt + 'b) state) \<Rightarrow> (st, halt + 'b) state" where
  "attempt m f = do {
     r \<leftarrow> m;
     case r of Inl h \<Rightarrow> return (Inl h) | Inr a \<Rightarrow> f a
   }"

text \<open>The two loops, for a body that may end early; the loop ends with it.\<close>

primrec attempt_each ::
  "'a list \<Rightarrow> ('a \<Rightarrow> (st, halt + unit) state) \<Rightarrow> (st, halt + unit) state" where
  "attempt_each [] body = return (Inr ())"
| "attempt_each (x # xs) body = attempt (body x) (\<lambda>_. attempt_each xs body)"

primrec attempt_fold ::
  "'a list \<Rightarrow> ('a \<Rightarrow> 'b \<Rightarrow> (st, halt + 'b) state) \<Rightarrow> 'b \<Rightarrow> (st, halt + 'b) state" where
  "attempt_fold [] body acc = return (Inr acc)"
| "attempt_fold (x # xs) body acc = attempt (body x acc) (attempt_fold xs body)"

text \<open>
  The data of a 200 answer as the callers of three kinds of helper take it.
  \<^verbatim>\<open>body.data || []\<close> is an array of rooms, empty when the data is not truthy.
  \<^verbatim>\<open>body.data\<close> of a created room is the room, or is not truthy.
  \<^verbatim>\<open>body.data.messagePageResp\<close> is a property read on the data, which raises when
  the data is \<^verbatim>\<open>null\<close> and yields a value that no caller reads otherwise.
\<close>

fun rooms_listed :: "json \<Rightarrow> halt + room list" where
  "rooms_listed JNull = Inr []"
| "rooms_listed (JString t) = (if t = [] then Inr [] else Inl Untyped)"
| "rooms_listed (JRooms rs) = Inr rs"
| "rooms_listed (JRoom r) = Inl Untyped"
| "rooms_listed JObject = Inl Untyped"

fun room_created :: "json \<Rightarrow> halt + room option" where
  "room_created JNull = Inr None"
| "room_created (JString t) = (if t = [] then Inr None else Inl Untyped)"
| "room_created (JRooms rs) = Inl Untyped"
| "room_created (JRoom r) = Inr (Some r)"
| "room_created JObject = Inl Untyped"

fun page_read :: "json \<Rightarrow> halt + unit" where
  "page_read JNull = Inl (Raised TypeError)"
| "page_read (JString t) = Inr ()"
| "page_read (JRooms rs) = Inr ()"
| "page_read (JRoom r) = Inr ()"
| "page_read JObject = Inr ()"

subsection \<open>comp: the helper functions\<close>

text \<open>
  \<^verbatim>\<open>login\<close> returns the data of a 200 answer as it is, and \<^verbatim>\<open>null\<close> otherwise.
  Its second check is \<^verbatim>\<open>body.data && body.data.length > 0\<close>.
\<close>

definition comp_login :: "world \<Rightarrow> email \<Rightarrow> string \<Rightarrow> (st, json) state" where
  "comp_login w em pw = do {
     res \<leftarrow> http w (LoginReq em pw);
     c1 \<leftarrow> check ck_login_status (status res = 200);
     c2 \<leftarrow> check ck_login_token
            (status res = 200 \<and> js_truthy (body_data res) \<and> has_length (body_data res));
     emit (Add authSuccessRate (of_bool (c1 \<and> c2)));
     return (if status res = 200 then body_data res else JNull)
   }"

definition comp_createGroupChat ::
  "world \<Rightarrow> string \<Rightarrow> nat list \<Rightarrow> string \<Rightarrow> (st, halt + room option) state" where
  "comp_createGroupChat w token memberIds password = do {
     res \<leftarrow> http w (CreateGroupReq token memberIds password);
     _ \<leftarrow> check ck_create_group (status res = 200);
     if status res = 200 then do {
       emit (Add groupChatCreated 1);
       return (room_created (body_data res))
     } else return (Inr None)
   }"





text \<open>
  \<^verbatim>\<open>joinGroupRoom\<close> of comp: the check passes on 200 and on 400 (the comment reads
  400 as "already joined"); the function returns \<^verbatim>\<open>success && res.status === 200\<close>.
  The payload carries the password when it is truthy.
\<close>

definition comp_joinGroupRoom ::
  "world \<Rightarrow> string \<Rightarrow> nat \<Rightarrow> string option \<Rightarrow> (st, bool) state" where
  "comp_joinGroupRoom w token roomId password = do {
     res \<leftarrow> http w (JoinReq token roomId (if truthy password then password else None));
     success \<leftarrow> check ck_join (status res = 200 \<or> status res = 400);
     return (success \<and> status res = 200)
   }"


definition comp_sendMessageViaREST ::
  "world \<Rightarrow> string \<Rightarrow> nat \<Rightarrow> chat_room_type \<Rightarrow> (st, bool) state" where
  "comp_sendMessageViaREST w token roomId chatRoomType = do {
     res \<leftarrow> http w (FilesReq token roomId chatRoomType False);
     emit (Observe messageSendLatency);
     success \<leftarrow> check ck_send (status res = 200);
     emit (Add messageSuccessRate (of_bool success));
     (if success then emit (Add messagesSent 1) else return ());
     return success
   }"





subsection \<open>comp: the scenarios\<close>

text \<open>
  In the part that models cai, further down, a token is kept as a string or
  \<^verbatim>\<open>null\<close>; \<^verbatim>\<open>`Bearer ${token}`\<close> renders \<^verbatim>\<open>null\<close> as the text "null".
\<close>

fun token_text :: "string option \<Rightarrow> string" where
  "token_text (Some t) = t"
| "token_text None = ''null''"







subsection \<open>comp: setup and the default function\<close>

text \<open>
  What \<^verbatim>\<open>setup\<close> returns in comp, stress and cai: the shared rooms, and whether
  \<^verbatim>\<open>startTime\<close> is set. None of them returns a token cache, which the \<^verbatim>\<open>teardown\<close>
  of cai reads all the same: \<open>d_tokenCache\<close> is that property, \<open>None\<close> when it is
  absent (\<^verbatim>\<open>undefined\<close>).
\<close>

record setup_data =
  d_sharedRooms :: "room list"
  d_tokenCache :: "(nat \<Rightarrow> string option) option"
  d_startTime :: bool

text \<open>
  \<^verbatim>\<open>setup\<close> of comp. Its fourth log line evaluates
  \<^verbatim>\<open>LOAD_PROFILES[TEST_DURATION].length\<close>, before the first request, which raises
  when the profile reads as \<^verbatim>\<open>undefined\<close>. The member ids of room \<open>i\<close> are built
  by the inner loop over \<open>j = 1..10\<close>.
\<close>

definition comp_setup :: "world \<Rightarrow> string \<Rightarrow> (st, halt + setup_data) state" where
  "comp_setup w TEST_DURATION =
     (case profile_of comp_LOAD_PROFILES TEST_DURATION of
        Undefined \<Rightarrow> return (Inl (Raised TypeError))
      | _ \<Rightarrow> do {
          let ownerUser = hd users;
          ownerToken \<leftarrow> comp_login w (u_email ownerUser) (u_password ownerUser);
          if \<not> js_truthy ownerToken then do {
            emit (ConsoleError OwnerLoginFailed);
            return (Inr \<lparr>d_sharedRooms = [], d_tokenCache = None, d_startTime = False\<rparr>)
          } else
            attempt
              (attempt_fold [0..<10] (\<lambda>i rooms. do {
                 let memberIds = filter (\<lambda>userId. userId \<noteq> u_id ownerUser)
                                   (map (\<lambda>j. (i * 10 + j) mod length users + 1) [1..<11]);
                 attempt (comp_createGroupChat w (js_text ownerToken) (take 5 memberIds) [])
                   (\<lambda>room. do {
                      rooms' \<leftarrow> (case room of
                         None \<Rightarrow> return rooms
                       | Some rm \<Rightarrow> do {
                           for_each [1..<21] (\<lambda>k. do {
                             _ \<leftarrow> comp_sendMessageViaREST w (js_text ownerToken) (r_id rm)
                                    GROUP;
                             return ()
                           });
                           return (rooms @ [rm])
                         });
                      sleep (1 / 2);
                      return (Inr rooms')
                    })
               }) [])
              (\<lambda>sharedRooms.
                 return (Inr \<lparr>d_sharedRooms = sharedRooms, d_tokenCache = None,
                              d_startTime = True\<rparr>))
        })"


subsection \<open>dg: the helper functions\<close>

text \<open>The 15 message templates, by position; their text is not modelled.\<close>

definition dg_MESSAGE_TEMPLATES :: "nat list" where
  "dg_MESSAGE_TEMPLATES = [0..<15]"

definition dg_login :: "world \<Rightarrow> email \<Rightarrow> string \<Rightarrow> (st, json) state" where
  "dg_login w em pw = do {
     res \<leftarrow> http w (LoginReq em pw);
     c1 \<leftarrow> check ck_login_status (status res = 200);
     c2 \<leftarrow> check ck_login_token
            (status res = 200 \<and> js_truthy (body_data res) \<and> has_length (body_data res));
     emit (Add authSuccessRate (of_bool (c1 \<and> c2)));
     return (if status res = 200 then body_data res else JNull)
   }"

definition dg_createOrFindDirectChat ::
  "world \<Rightarrow> string \<Rightarrow> nat \<Rightarrow> (st, halt + room option) state" where
  "dg_createOrFindDirectChat w token partnerId = do {
     res \<leftarrow> http w (CreateDirectReq token partnerId);
     emit (Observe roomCreateLatency);
     success \<leftarrow> check ck_create_direct (status res = 200);
     emit (Add roomCreateSuccessRate (of_bool success));
     if status res = 200 then do {
       emit (Add directChatCreated 1);
       emit (Add activeDirectRooms 1);
       return (room_created (body_data res))
     } else do {
       emit (ConsoleError CreateDirectFailed);
       return (Inr None)
     }
   }"

definition dg_createGroupChat ::
  "world \<Rightarrow> string \<Rightarrow> nat list \<Rightarrow> string \<Rightarrow> (st, halt + room option) state" where
  "dg_createGroupChat w token memberIds password = do {
     res \<leftarrow> http w (CreateGroupReq token memberIds password);
     emit (Observe roomCreateLatency);
     success \<leftarrow> check ck_create_group (status res = 200);
     emit (Add roomCreateSuccessRate (of_bool success));
     if status res = 200 then do {
       emit (Add groupChatCreated 1);
       emit (Add activeGroupRooms 1);
       return (room_created (body_data res))
     } else do {
       emit (ConsoleError CreateGroupFailed);
       return (Inr None)
     }
   }"

definition dg_getDirectRoomList :: "world \<Rightarrow> string \<Rightarrow> (st, halt + room list) state" where
  "dg_getDirectRoomList w token = do {
     res \<leftarrow> http w (DirectListReq token);
     emit (Observe directRoomListLatency);
     success \<leftarrow> check ck_direct_list (status res = 200);
     (if \<not> success then emit (ConsoleError DirectListFailed) else return ());
     return (if status res = 200 then rooms_listed (body_data res) else Inr [])
   }"

definition dg_getGroupRoomList :: "world \<Rightarrow> string \<Rightarrow> (st, halt + room list) state" where
  "dg_getGroupRoomList w token = do {
     res \<leftarrow> http w (GroupListReq token);
     emit (Observe groupRoomListLatency);
     success \<leftarrow> check ck_group_list (status res = 200);
     (if \<not> success then emit (ConsoleError GroupListFailed) else return ());
     return (if status res = 200 then rooms_listed (body_data res) else Inr [])
   }"

definition dg_getPublicGroupRooms :: "world \<Rightarrow> string \<Rightarrow> (st, halt + room list) state" where
  "dg_getPublicGroupRooms w token = do {
     res \<leftarrow> http w (PublicListReq token);
     emit (Observe publicRoomListLatency);
     return (if status res = 200 then rooms_listed (body_data res) else Inr [])
   }"

text \<open>
  \<^verbatim>\<open>joinGroupRoom\<close> of dg: the check passes on 200 only; its comment says the
  backend answers a repeated join with 200. A failed check is reported.
\<close>

definition dg_joinGroupRoom ::
  "world \<Rightarrow> string \<Rightarrow> nat \<Rightarrow> string option \<Rightarrow> (st, bool) state" where
  "dg_joinGroupRoom w token roomId password = do {
     res \<leftarrow> http w (JoinReq token roomId (if truthy password then password else None));
     emit (Observe roomJoinLatency);
     success \<leftarrow> check ck_join (status res = 200);
     (if success then emit (Add roomsJoined 1) else emit (ConsoleError (JoinFailed roomId)));
     return success
   }"

definition dg_getMessages ::
  "world \<Rightarrow> string \<Rightarrow> nat \<Rightarrow> chat_room_type \<Rightarrow> nat option \<Rightarrow> nat \<Rightarrow> (st, halt + unit) state"
  where
  "dg_getMessages w token roomId chatRoomType cursor sz = do {
     res \<leftarrow> http w (MessagesReq token roomId chatRoomType cursor sz);
     emit (Observe messageReadLatency);
     success \<leftarrow> check ck_get_messages (status res = 200);
     if success then do {
       emit (Add messagesReceived 1);
       return (page_read (body_data res))
     } else do {
       emit (ConsoleError (GetMessagesFailed roomId));
       return (Inr ())
     }
   }"

text \<open>
  \<^verbatim>\<open>sendMessage\<close> of dg posts to the test endpoint with no Authorization header;
  the sender is named in the query when a user is given.
\<close>

definition dg_sendMessage ::
  "world \<Rightarrow> string \<Rightarrow> nat \<Rightarrow> chat_room_type \<Rightarrow> user option \<Rightarrow> (st, bool) state" where
  "dg_sendMessage w token roomId chatRoomType user = do {
     res \<leftarrow> http w (TestMessageReq (map_option u_id user) roomId chatRoomType);
     emit (Observe messageSendLatency);
     success \<leftarrow> check ck_send (status res = 200);
     emit (Add messageSuccessRate (of_bool success));
     (if success then emit (Add messagesSent 1) else emit (ConsoleError SendFailed));
     return success
   }"

definition dg_inviteMember :: "world \<Rightarrow> string \<Rightarrow> nat \<Rightarrow> nat \<Rightarrow> (st, bool) state" where
  "dg_inviteMember w token roomId targetMemberId = do {
     res \<leftarrow> http w (InviteReq token roomId targetMemberId);
     success \<leftarrow> check ck_invite (status res = 200);
     (if success then emit (Add membersInvited 1) else return ());
     return success
   }"

definition dg_transferOwnership :: "world \<Rightarrow> string \<Rightarrow> nat \<Rightarrow> nat \<Rightarrow> (st, bool) state" where
  "dg_transferOwnership w token roomId newOwnerId = do {
     res \<leftarrow> http w (TransferReq token roomId newOwnerId);
     success \<leftarrow> check ck_transfer (status res = 200);
     (if \<not> success \<and> status res = 403 then emit (Add permissionDeniedRate 1)
      else emit (Add permissionDeniedRate 0));
     (if success then emit (Add ownershipTransferred 1) else return ());
     return success
   }"

definition dg_leaveRoom ::
  "world \<Rightarrow> string \<Rightarrow> nat \<Rightarrow> chat_room_type \<Rightarrow> (st, bool) state" where
  "dg_leaveRoom w token roomId chatRoomType = do {
     res \<leftarrow> http w (LeaveReq token roomId chatRoomType);
     _ \<leftarrow> check ck_leave (status res = 200 \<or> status res = 204);
     return (status res = 200 \<or> status res = 204)
   }"

subsection \<open>dg: the scenarios\<close>

text \<open>The scenarios of dg receive the token; none of them logs in.\<close>

definition dg_directChatFocusedScenario ::
  "world \<Rightarrow> user \<Rightarrow> string \<Rightarrow> room list \<Rightarrow> (st, halt + unit) state" where
  "dg_directChatFocusedScenario w user token sharedRooms = do {
     emit (Add activeUsers 1);
     attempt (dg_getDirectRoomList w token) (\<lambda>directRooms. do {
       partnerCount \<leftarrow> randomIntBetween w 2 4;
       attempt
         (attempt_fold [0..<nat partnerCount] (\<lambda>i acc. do {
            partner \<leftarrow> randomItem w users;
            if u_id partner \<noteq> u_id user then
              attempt (dg_createOrFindDirectChat w token (u_id partner)) (\<lambda>room.
                case room of
                  None \<Rightarrow> return (Inr acc)
                | Some rm \<Rightarrow> do { sleep (1 / 2); return (Inr (acc @ [rm])) })
            else return (Inr acc)
          }) [])
         (\<lambda>newDirectRooms. do {
            let allDirectRooms = directRooms @ newDirectRooms;
            attempt
              (attempt_each (take 3 allDirectRooms) (\<lambda>room.
                 attempt (dg_getMessages w token (r_id room) DIRECT None 20) (\<lambda>_. do {
                   d \<leftarrow> randomIntBetween w 1 2;
                   sleep (of_int d);
                   messageCount \<leftarrow> randomIntBetween w 2 5;
                   for_each [0..<nat messageCount] (\<lambda>i. do {
                     content \<leftarrow> randomItem w dg_MESSAGE_TEMPLATES;
                     _ \<leftarrow> dg_sendMessage w token (r_id room) DIRECT (Some user);
                     d' \<leftarrow> randomIntBetween w 1 3;
                     sleep (of_int d')
                   });
                   return (Inr ())
                 })))
              (\<lambda>_. do {
                 emit (Add activeUsers (- 1));
                 return (Inr ())
               })
          })
     })
   }"

definition dg_groupChatCasualScenario ::
  "world \<Rightarrow> user \<Rightarrow> string \<Rightarrow> room list \<Rightarrow> (st, halt + unit) state" where
  "dg_groupChatCasualScenario w user token sharedRooms = do {
     emit (Add activeUsers 1);
     attempt (dg_getGroupRoomList w token) (\<lambda>listed. do {
       sleep (1 / 2);
       attempt
         (if listed = [] then
            attempt
              (if sharedRooms \<noteq> [] then do {
                 targetRoom \<leftarrow> randomItem w sharedRooms;
                 _ \<leftarrow> dg_joinGroupRoom w token (r_id targetRoom) None;
                 sleep 1;
                 dg_getGroupRoomList w token
               } else return (Inr listed))
              (\<lambda>afterShared.
                 if afterShared = [] then
                   attempt (dg_getPublicGroupRooms w token) (\<lambda>publicRooms. do {
                     let noPasswordRooms = filter (\<lambda>room. \<not> r_hasPassword room) publicRooms;
                     if noPasswordRooms \<noteq> [] then do {
                       targetRoom \<leftarrow> randomItem w noPasswordRooms;
                       _ \<leftarrow> dg_joinGroupRoom w token (r_id targetRoom) None;
                       sleep 1;
                       dg_getGroupRoomList w token
                     } else return (Inr afterShared)
                   })
                 else return (Inr afterShared))
          else return (Inr listed))
         (\<lambda>groupRooms.
            if groupRooms = [] then do {
              emit (Add activeUsers (- 1));
              return (Inr ())
            } else do {
              room \<leftarrow> randomItem w groupRooms;
              r1 \<leftarrow> Math_random w;
              attempt
                (if r1 < double_of (7 / 10) then
                   attempt (dg_getMessages w token (r_id room) GROUP None 30) (\<lambda>_. do {
                     d \<leftarrow> randomIntBetween w 2 4;
                     sleep (of_int d);
                     return (Inr ())
                   })
                 else return (Inr ()))
                (\<lambda>_. do {
                   r2 \<leftarrow> Math_random w;
                   (if r2 < double_of (3 / 10) then do {
                      content \<leftarrow> randomItem w dg_MESSAGE_TEMPLATES;
                      _ \<leftarrow> dg_sendMessage w token (r_id room) GROUP (Some user);
                      d \<leftarrow> randomIntBetween w 1 3;
                      sleep (of_int d)
                    } else return ());
                   emit (Add activeUsers (- 1));
                   return (Inr ())
                 })
            })
     })
   }"

definition dg_groupChatActiveScenario ::
  "world \<Rightarrow> user \<Rightarrow> string \<Rightarrow> room list \<Rightarrow> (st, halt + unit) state" where
  "dg_groupChatActiveScenario w user token sharedRooms = do {
     emit (Add activeUsers 1);
     attempt (dg_getGroupRoomList w token) (\<lambda>listed.
     attempt
       (if listed = [] \<and> sharedRooms \<noteq> [] then do {
          targetRoom \<leftarrow> randomItem w sharedRooms;
          _ \<leftarrow> dg_joinGroupRoom w token (r_id targetRoom) None;
          dg_getGroupRoomList w token
        } else return (Inr listed))
       (\<lambda>groupRooms.
          if groupRooms = [] then do {
            emit (Add activeUsers (- 1));
            return (Inr ())
          } else
            attempt
              (attempt_each (take 3 groupRooms) (\<lambda>room.
                 attempt (dg_getMessages w token (r_id room) GROUP None 25) (\<lambda>_. do {
                   d \<leftarrow> randomIntBetween w 1 2;
                   sleep (of_int d);
                   messageCount \<leftarrow> randomIntBetween w 3 7;
                   for_each [0..<nat messageCount] (\<lambda>i. do {
                     content \<leftarrow> randomItem w dg_MESSAGE_TEMPLATES;
                     _ \<leftarrow> dg_sendMessage w token (r_id room) GROUP (Some user);
                     d' \<leftarrow> randomIntBetween w 1 2;
                     sleep (of_int d')
                   });
                   d'' \<leftarrow> randomIntBetween w 2 4;
                   sleep (of_int d'');
                   return (Inr ())
                 })))
              (\<lambda>_. do {
                 emit (Add activeUsers (- 1));
                 return (Inr ())
               })))
   }"

text \<open>
  \<^verbatim>\<open>for (let i = 0; i < randomIntBetween(lo, hi); i++) body\<close>: the bound is drawn
  anew at every test of the condition. The draws are bounded, so the loop ends.
\<close>

function redrawn_for ::
  "world \<Rightarrow> int \<Rightarrow> int \<Rightarrow> (nat \<Rightarrow> (st, unit) state) \<Rightarrow> nat \<Rightarrow> st \<Rightarrow> st" where
  "redrawn_for w lo hi body i s =
     (case run_state (randomIntBetween w lo hi) s of
        (bound, s1) \<Rightarrow>
          if int i < bound
          then redrawn_for w lo hi body (Suc i) (snd (run_state (body i) s1))
          else s1)"
  by pat_completeness auto
termination
proof (relation
    "measure (\<lambda>(w, lo, hi, body, i, s). nat (4 * \<bar>hi - lo + 1\<bar> + 2 * \<bar>lo\<bar> + 4) - i)")
  show "wf (measure (\<lambda>(w, lo, hi, body, i, s). nat (4 * \<bar>hi - lo + 1\<bar> + 2 * \<bar>lo\<bar> + 4) - i))"
    by simp
next
  fix w :: world and lo hi :: int and body :: "nat \<Rightarrow> (st, unit) state"
    and i :: nat and s s1 :: st and bound :: int
  assume run: "(bound, s1) = run_state (randomIntBetween w lo hi) s" and lt: "int i < bound"
  define r where "r = double_below (frac (rnd w (rnd_n s)))"
  define n where "n = hi - lo + 1"
  define t where "t = double_of (r * of_int n)"
  have u: "0 < ulp x" for x
    by (simp add: ulp_def pow2_def)
  have near: "\<bar>double_of x\<bar> \<le> 2 * \<bar>x\<bar> + 1" for x
  proof -
    let ?u = "ulp x"
    let ?r = "of_int (round_half_even (x / ?u)) :: rat"
    have "y - 1 \<le> of_int (round_half_even y)" "of_int (round_half_even y) \<le> y + 1"
      for y :: rat
      by (auto simp: round_half_even_def Let_def) linarith+
    then have "x / ?u - 1 \<le> ?r" "?r \<le> x / ?u + 1"
      by blast+
    then have "(x / ?u - 1) * ?u \<le> ?r * ?u" "?r * ?u \<le> (x / ?u + 1) * ?u"
      using u [of x] by (simp_all add: mult_right_mono)
    moreover have "(x / ?u - 1) * ?u = x - ?u" "(x / ?u + 1) * ?u = x + ?u"
      using u [of x] by (simp_all add: field_simps)
    ultimately have *: "x - ?u \<le> double_of x" "double_of x \<le> x + ?u"
      by (simp_all add: double_of_def)
    have "?u \<le> \<bar>x\<bar> + 1"
    proof (cases "1 \<le> \<bar>x\<bar>")
      case True
      let ?h = "halvings 1023 \<bar>x\<bar>"
      have le: "1 \<le> y \<Longrightarrow> 2 ^ halvings k y \<le> y" for k y
      proof (induction k arbitrary: y)
        case 0
        then show ?case by simp
      next
        case (Suc k)
        show ?case
        proof (cases "y < 2")
          case True
          then show ?thesis using Suc.prems by simp
        next
          case False
          then have "1 \<le> y / 2" by simp
          from Suc.IH [OF this] show ?thesis using False by simp
        qed
      qed
      have "pow2 (int ?h - 52) \<le> 2 ^ ?h"
      proof (cases "52 \<le> ?h")
        case True
        then have "pow2 (int ?h - 52) = 2 ^ (?h - 52)"
          by (simp add: pow2_def nat_diff_distrib)
        also have "\<dots> \<le> 2 ^ ?h"
          by (rule power_increasing) simp_all
        finally show ?thesis .
      next
        case False
        then have "pow2 (int ?h - 52) = 1 / 2 ^ nat (52 - int ?h)"
          by (simp add: pow2_def)
        also have "\<dots> \<le> 1"
          by simp
        also have "\<dots> \<le> 2 ^ ?h"
          by simp
        finally show ?thesis .
      qed
      also have "\<dots> \<le> \<bar>x\<bar>"
        using True by (rule le)
      finally show ?thesis
        using True by (simp add: ulp_def exponent_def)
    next
      case False
      then have "?u = 1 / 2 ^ nat (int (doublings 1022 \<bar>x\<bar>) + 52)"
        by (simp add: ulp_def exponent_def pow2_def)
      also have "\<dots> \<le> 1"
        by simp
      finally show ?thesis
        by simp
    qed
    with * show ?thesis
      by linarith
  qed
  have r: "0 \<le> r" "r \<le> 1"
  proof -
    let ?x = "frac (rnd w (rnd_n s))"
    have x: "0 \<le> ?x" "?x < 1"
      by (simp_all add: frac_lt_1)
    then have "0 \<le> ?x / ulp ?x"
      using u [of ?x] by simp
    then show "0 \<le> r"
      using u [of ?x] by (simp add: r_def double_below_def)
    have "of_int \<lfloor>?x / ulp ?x\<rfloor> * ulp ?x \<le> (?x / ulp ?x) * ulp ?x"
      using u [of ?x] by (intro mult_right_mono) simp_all
    then have "r \<le> ?x"
      using u [of ?x] by (simp add: r_def double_below_def)
    then show "r \<le> 1"
      using x by simp
  qed
  have b: "bound = \<lfloor>double_of (t + of_int lo)\<rfloor>"
    using run by (simp add: randomIntBetween_def Math_random_def r_def t_def n_def)
  have "\<bar>r * of_int n\<bar> \<le> \<bar>of_int n\<bar>"
    using r by (simp add: abs_mult mult_left_le_one_le)
  then have "\<bar>t\<bar> \<le> 2 * \<bar>of_int n\<bar> + 1"
    using near [of "r * of_int n"] by (simp add: t_def)
  then have "\<bar>t + of_int lo\<bar> \<le> 2 * \<bar>of_int n\<bar> + 1 + \<bar>of_int lo\<bar>"
    by linarith
  moreover have "a \<le> 2 * b + 1 + c \<Longrightarrow> \<bar>d\<bar> \<le> 2 * a + 1 \<Longrightarrow> d \<le> 4 * b + 2 * c + 3"
    for a b c d :: rat
    by linarith
  ultimately have "double_of (t + of_int lo) \<le> 4 * \<bar>of_int n\<bar> + 2 * \<bar>of_int lo\<bar> + 3"
    using near [of "t + of_int lo"] by blast
  also have "\<dots> = of_int (4 * \<bar>n\<bar> + 2 * \<bar>lo\<bar> + 3)"
    by simp
  finally have "bound \<le> 4 * \<bar>n\<bar> + 2 * \<bar>lo\<bar> + 3"
    unfolding b by (simp add: floor_le_iff del: of_int_add of_int_mult)
  then have "int i < 4 * \<bar>hi - lo + 1\<bar> + 2 * \<bar>lo\<bar> + 4"
    using lt unfolding n_def by linarith
  then have "i < nat (4 * \<bar>hi - lo + 1\<bar> + 2 * \<bar>lo\<bar> + 4)"
    by (simp only: zless_nat_eq_int_zless)
  then show "((w, lo, hi, body, Suc i, snd (run_state (body i) s1)), (w, lo, hi, body, i, s))
             \<in> measure (\<lambda>(w, lo, hi, body, i, s). nat (4 * \<bar>hi - lo + 1\<bar> + 2 * \<bar>lo\<bar> + 4) - i)"
    by (simp add: diff_less_mono2)
qed

declare redrawn_for.simps [simp del]

definition dg_roomManagerScenario ::
  "world \<Rightarrow> user \<Rightarrow> string \<Rightarrow> user list \<Rightarrow> (st, halt + unit) state" where
  "dg_roomManagerScenario w user token us = do {
     emit (Add activeUsers 1);
     roomSize \<leftarrow> randomIntBetween w 3 10;
     inviteMembers \<leftarrow> fold_each [0..<nat roomSize] (\<lambda>i acc. do {
       randomUser \<leftarrow> randomItem w us;
       return (if u_id randomUser \<noteq> u_id user \<and> u_id randomUser \<notin> set acc
               then acc @ [u_id randomUser] else acc)
     }) [];
     suffix \<leftarrow> randomIntBetween w 1 1000;
     attempt (dg_createGroupChat w token inviteMembers []) (\<lambda>room.
       case room of
         None \<Rightarrow> do {
           emit (Add activeUsers (- 1));
           return (Inr ())
         }
       | Some rm \<Rightarrow> do {
           sleep 1;
           _ \<leftarrow> dg_sendMessage w token (r_id rm) GROUP (Some user);
           sleep 1;
           r1 \<leftarrow> Math_random w;
           (if r1 < double_of (3 / 10) then do {
              newMember \<leftarrow> randomItem w us;
              if u_id newMember \<noteq> u_id user \<and> u_id newMember \<notin> set inviteMembers then do {
                _ \<leftarrow> dg_inviteMember w token (r_id rm) (u_id newMember);
                sleep 1;
                _ \<leftarrow> dg_sendMessage w token (r_id rm) GROUP (Some user);
                return ()
              } else return ()
            } else return ());
           sleep 2;
           State (\<lambda>s. ((), redrawn_for w 3 5 (\<lambda>i. do {
              content \<leftarrow> randomItem w dg_MESSAGE_TEMPLATES;
              _ \<leftarrow> dg_sendMessage w token (r_id rm) GROUP (Some user);
              d \<leftarrow> randomIntBetween w 1 3;
              sleep (of_int d)
            }) 0 s));
           r2 \<leftarrow> Math_random w;
           (if r2 < double_of (1 / 10) \<and> inviteMembers \<noteq> [] then do {
              _ \<leftarrow> dg_transferOwnership w token (r_id rm) (hd inviteMembers);
              sleep 1
            } else return ());
           r3 \<leftarrow> Math_random w;
           (if r3 < double_of (1 / 5) then do {
              _ \<leftarrow> dg_leaveRoom w token (r_id rm) GROUP;
              emit (Add activeGroupRooms (- 1))
            } else return ());
           emit (Add activeUsers (- 1));
           return (Inr ())
         })
   }"

definition dg_mixedUserScenario ::
  "world \<Rightarrow> user \<Rightarrow> string \<Rightarrow> room list \<Rightarrow> (st, halt + unit) state" where
  "dg_mixedUserScenario w user token sharedRooms = do {
     emit (Add activeUsers 1);
     attempt (dg_getDirectRoomList w token) (\<lambda>directRooms.
     attempt
       (if directRooms \<noteq> [] then do {
          directRoom \<leftarrow> randomItem w directRooms;
          attempt (dg_getMessages w token (r_id directRoom) DIRECT None 25) (\<lambda>_. do {
            sleep 1;
            content \<leftarrow> randomItem w dg_MESSAGE_TEMPLATES;
            _ \<leftarrow> dg_sendMessage w token (r_id directRoom) DIRECT (Some user);
            sleep 2;
            return (Inr ())
          })
        } else return (Inr ()))
       (\<lambda>_.
     attempt (dg_getGroupRoomList w token) (\<lambda>listed.
     attempt
       (if listed = [] \<and> sharedRooms \<noteq> [] then do {
          targetRoom \<leftarrow> randomItem w sharedRooms;
          _ \<leftarrow> dg_joinGroupRoom w token (r_id targetRoom) None;
          dg_getGroupRoomList w token
        } else return (Inr listed))
       (\<lambda>groupRooms.
     attempt
       (if groupRooms \<noteq> [] then do {
          groupRoom \<leftarrow> randomItem w groupRooms;
          attempt (dg_getMessages w token (r_id groupRoom) GROUP None 25) (\<lambda>_. do {
            sleep 1;
            content \<leftarrow> randomItem w dg_MESSAGE_TEMPLATES;
            _ \<leftarrow> dg_sendMessage w token (r_id groupRoom) GROUP (Some user);
            sleep 2;
            return (Inr ())
          })
        } else return (Inr ()))
       (\<lambda>_.
     attempt (dg_getPublicGroupRooms w token) (\<lambda>publicRooms. do {
       let noPasswordRooms = filter (\<lambda>room. \<not> r_hasPassword room) publicRooms;
       (if noPasswordRooms \<noteq> [] then do {
          r \<leftarrow> Math_random w;
          if r < double_of (1 / 2) then do {
            newRoom \<leftarrow> randomItem w noPasswordRooms;
            joined \<leftarrow> dg_joinGroupRoom w token (r_id newRoom) None;
            if joined then do {
              sleep 1;
              _ \<leftarrow> dg_sendMessage w token (r_id newRoom) GROUP (Some user);
              return ()
            } else return ()
          } else return ()
        } else return ());
       emit (Add activeUsers (- 1));
       return (Inr ())
     }))))))
   }"

subsection \<open>dg: setup and the default function\<close>

text \<open>
  \<^verbatim>\<open>http.batch(requests)\<close> returns the responses in the order of the requests.
\<close>

definition http_batch :: "world \<Rightarrow> request list \<Rightarrow> (st, response list) state" where
  "http_batch w reqs = fold_each reqs (\<lambda>r acc. do {
     res \<leftarrow> http w r;
     return (acc @ [res])
   }) []"

text \<open>
  The token cache is an object indexed by user id, empty at first. An absent
  entry reads as \<^verbatim>\<open>undefined\<close>; the scripts only test such a value for truth,
  and \<open>cache_entry\<close> gives \<^verbatim>\<open>null\<close> for it.
\<close>

fun cache_entry :: "json option \<Rightarrow> json" where
  "cache_entry None = JNull"
| "cache_entry (Some v) = v"

text \<open>
  Step 1 of \<^verbatim>\<open>setup\<close>: all users log in, 20 at a time. The callback of
  \<^verbatim>\<open>responses.forEach\<close> stores the data of a 200 response that passes
  \<^verbatim>\<open>body.data && body.data.length > 0\<close>, and reports every other response; the
  loop goes on either way. (The two counters it keeps are only printed.)
\<close>

definition dg_setup_login_result ::
  "user \<Rightarrow> response \<Rightarrow> (nat \<Rightarrow> json option) \<Rightarrow> (st, nat \<Rightarrow> json option) state" where
  "dg_setup_login_result user res tokenCache =
     (if status res = 200 then
        (if js_truthy (body_data res) \<and> has_length (body_data res)
         then return (tokenCache(u_id user := Some (body_data res)))
         else do { emit (ConsoleError (LoginNoToken (u_email user))); return tokenCache })
      else do { emit (ConsoleError (LoginFailed (u_email user))); return tokenCache })"

definition loginBatchSize :: nat where
  "loginBatchSize = 20"

text \<open>The body of the batch loop, for the batch that starts at index \<open>i\<close>.\<close>

definition dg_setup_login_batch ::
  "world \<Rightarrow> nat \<Rightarrow> (nat \<Rightarrow> json option) \<Rightarrow> (st, nat \<Rightarrow> json option) state" where
  "dg_setup_login_batch w i tokenCache = do {
     let batchUsers = take loginBatchSize (drop i users);
     responses \<leftarrow> http_batch w (map (\<lambda>u. LoginReq (u_email u) (u_password u)) batchUsers);
     fold_each (zip batchUsers responses)
       (\<lambda>(user, res) cache. dg_setup_login_result user res cache) tokenCache
   }"

definition dg_setup_logins :: "world \<Rightarrow> (st, nat \<Rightarrow> json option) state" where
  "dg_setup_logins w =
     fold_each (filter (\<lambda>i. i mod loginBatchSize = 0) [0..<length users])
       (dg_setup_login_batch w) (\<lambda>_. None)"

text \<open>
  Step 2 of \<^verbatim>\<open>setup\<close>, run only with an owner token: one shared room per entry
  of \<^verbatim>\<open>roomSizes\<close>, each seeded with up to 20 messages sent in batches of 5.
  \<open>room_members i roomSize\<close> are the member ids the request for room \<open>i\<close> names.
\<close>

definition roomSizes :: "nat list" where
  "roomSizes = [5, 5, 10, 10, 10, 20, 20, 30, 30, 50, 50, 50, 100, 100, 100]"

definition room_members :: "user \<Rightarrow> nat \<Rightarrow> nat \<Rightarrow> nat list" where
  "room_members ownerUser i roomSize =
     (let memberIds = filter (\<lambda>userId. userId \<noteq> u_id ownerUser)
                        (map (\<lambda>j. (i * 10 + j) mod length users + 1) [1..<roomSize + 1])
      in take (min roomSize (length memberIds)) memberIds)"

definition dg_setup_room ::
  "world \<Rightarrow> user \<Rightarrow> string \<Rightarrow> nat \<times> nat \<Rightarrow> room list \<Rightarrow> (st, halt + room list) state" where
  "dg_setup_room w ownerUser ownerToken = (\<lambda>(i, roomSize) sharedRooms.
     attempt (dg_createGroupChat w ownerToken (room_members ownerUser i roomSize) [])
       (\<lambda>room. do {
          rooms' \<leftarrow> (case room of
             None \<Rightarrow> return sharedRooms
           | Some rm \<Rightarrow> do {
               let initialMessages = min (roomSize * 2) 20;
               for_each (filter (\<lambda>b. (b - 1) mod 5 = 0) [1..<initialMessages + 1])
                 (\<lambda>batchStart. do {
                    let batchEnd = min (batchStart + 5 - 1) initialMessages;
                    _ \<leftarrow> http_batch w
                           (map (\<lambda>k. TestMessageReq (Some (u_id ownerUser)) (r_id rm) GROUP)
                              [batchStart..<batchEnd + 1]);
                    return ()
                  });
               return (sharedRooms @ [rm])
             });
          sleep (1 / 2);
          return (Inr rooms')
        }))"

definition dg_setup_rooms :: "world \<Rightarrow> user \<Rightarrow> string \<Rightarrow> (st, halt + room list) state" where
  "dg_setup_rooms w ownerUser ownerToken =
     attempt_fold (zip [0..<length roomSizes] roomSizes) (dg_setup_room w ownerUser ownerToken) []"

text \<open>
  What \<^verbatim>\<open>setup\<close> of dg returns: the shared rooms and the token cache (and the
  start time, a date, which is left out).
\<close>

record dg_data =
  g_sharedRooms :: "room list"
  g_tokenCache :: "nat \<Rightarrow> json option"

text \<open>
  \<^verbatim>\<open>setup\<close> of dg. As in comp, a log line reads
  \<^verbatim>\<open>LOAD_PROFILES[TEST_DURATION].length\<close> first. An owner without a cached
  token logs in once more; if that fails too, the failure is reported, no room is
  created, and the token cache is returned all the same.
\<close>

definition dg_setup :: "world \<Rightarrow> string \<Rightarrow> (st, halt + dg_data) state" where
  "dg_setup w TEST_DURATION =
     (case profile_of dg_LOAD_PROFILES TEST_DURATION of
        Undefined \<Rightarrow> return (Inl (Raised TypeError))
      | _ \<Rightarrow> do {
          tokenCache \<leftarrow> dg_setup_logins w;
          let ownerUser = hd users;
          let cached = cache_entry (tokenCache (u_id ownerUser));
          (ownerToken, tokenCache') \<leftarrow>
            (if \<not> js_truthy cached then do {
               retryToken \<leftarrow> dg_login w (u_email ownerUser) (u_password ownerUser);
               if js_truthy retryToken
               then return (retryToken, tokenCache(u_id ownerUser := Some retryToken))
               else do { emit (ConsoleError OwnerLoginFailed); return (cached, tokenCache) }
             } else return (cached, tokenCache));
          attempt
            (if js_truthy ownerToken then dg_setup_rooms w ownerUser (js_text ownerToken)
             else return (Inr []))
            (\<lambda>sharedRooms.
               return (Inr \<lparr>g_sharedRooms = sharedRooms, g_tokenCache = tokenCache'\<rparr>))
        })"

text \<open>
  The default function of dg, for the virtual user numbered \<open>vu\<close>. It reads the
  token cache of the setup data and writes a fresh token into it; the model
  returns the cache as the iteration leaves it, beside the way the iteration ends.
  A user without a token who fails to log in skips the iteration.
\<close>

definition dg_run_scenario ::
  "world \<Rightarrow> dg_scenario \<Rightarrow> user \<Rightarrow> string \<Rightarrow> room list \<Rightarrow> (st, halt + unit) state" where
  "dg_run_scenario w sc user token sharedRooms =
     (case sc of
        DirectChatFocused \<Rightarrow> dg_directChatFocusedScenario w user token sharedRooms
      | GroupChatCasual \<Rightarrow> dg_groupChatCasualScenario w user token sharedRooms
      | GroupChatActive \<Rightarrow> dg_groupChatActiveScenario w user token sharedRooms
      | DgRoomManager \<Rightarrow> dg_roomManagerScenario w user token users
      | MixedUser \<Rightarrow> dg_mixedUserScenario w user token sharedRooms)"

definition dg_default ::
  "world \<Rightarrow> dg_data \<Rightarrow> nat \<Rightarrow> (st, (nat \<Rightarrow> json option) \<times> (halt + unit)) state" where
  "dg_default w data vu = do {
     let sharedRooms = g_sharedRooms data;
     let tokenCache = g_tokenCache data;
     let user = users ! ((vu - 1) mod length users);
     let cached = cache_entry (tokenCache (u_id user));
     (token, tokenCache') \<leftarrow>
       (if \<not> js_truthy cached then do {
          fresh \<leftarrow> dg_login w (u_email user) (u_password user);
          return (fresh, if js_truthy fresh then tokenCache(u_id user := Some fresh)
                         else tokenCache)
        } else return (cached, tokenCache));
     if \<not> js_truthy token then return (tokenCache', Inr ())
     else do {
       userType \<leftarrow> randomIntBetween w 0 99;
       outcome \<leftarrow>
         attempt (dg_run_scenario w (dg_dispatch userType) user (js_text token) sharedRooms)
           (\<lambda>_. do {
              d \<leftarrow> randomIntBetween w 1 3;
              sleep (of_int d);
              return (Inr ())
            });
       return (tokenCache', outcome)
     }
   }"

text \<open>
  Iterations that run one after the other on the same setup data, each by the
  virtual user whose number is given. After an iteration that raises, the next one
  starts; the sequence is followed as far as its iterations are.
\<close>

fun dg_iterations ::
  "world \<Rightarrow> dg_data \<Rightarrow> nat list \<Rightarrow> (st, dg_data \<times> (halt + unit)) state" where
  "dg_iterations w data [] = return (data, Inr ())"
| "dg_iterations w data (vu # vus) = do {
     (tokenCache', outcome) \<leftarrow> dg_default w data vu;
     let data' = data\<lparr>g_tokenCache := tokenCache'\<rparr>;
     if outcome = Inl Untyped then return (data', outcome)
     else dg_iterations w data' vus
   }"

subsection \<open>stress: sending a message to an AI room, and setup\<close>

text \<open>
  \<^verbatim>\<open>sendAIMessage\<close> of stress. The second check passes when the body of a 200
  response has data other than \<^verbatim>\<open>null\<close>.
\<close>

definition stress_sendAIMessage ::
  "world \<Rightarrow> string \<Rightarrow> nat \<Rightarrow> ai_room_type \<Rightarrow> (st, bool) state" where
  "stress_sendAIMessage w token roomId roomType = do {
     res \<leftarrow> http w (FilesReq token roomId AI False);
     emit (Add aiMessagesTotal 1);
     emit (Observe aiResponseLatency);
     emit (Observe aiLatencyHistogram);
     (case roomType of
        ROLE_PLAY \<Rightarrow> emit (Observe aiRolePlayLatency)
      | TUTOR_PERSONAL \<Rightarrow> emit (Observe aiTutorPersonalLatency)
      | TUTOR_SIMILAR \<Rightarrow> emit (Observe aiTutorSimilarLatency));
     c1 \<leftarrow> check ck_ai_send (status res = 200);
     c2 \<leftarrow> check ck_ai_reply (status res = 200 \<and> body_data res \<noteq> JNull);
     let success = (c1 \<and> c2);
     (if success then do {
        emit (Add aiResponseSuccess 1);
        emit (Add aiSuccessRate 1);
        emit (Add aiTimeoutRate 0);
        emit (Add aiErrorRate 0)
      } else do {
        emit (Add aiResponseFailed 1);
        emit (Add aiSuccessRate 0);
        if timed_out res then do {
          emit (Add aiResponseTimeout 1);
          emit (Add aiTimeoutRate 1);
          emit (Add aiErrorRate 0);
          emit (ConsoleError (AITimeout roomId))
        } else do {
          emit (Add aiTimeoutRate 0);
          emit (Add aiErrorRate 1);
          emit (ConsoleError (AIError roomId))
        }
      });
     return success
   }"

text \<open>
  \<^verbatim>\<open>setup\<close> of stress prints its banner, reading
  \<^verbatim>\<open>LOAD_PROFILES[TEST_DURATION].length\<close> for it, and returns the start time.
\<close>

definition stress_setup :: "world \<Rightarrow> string \<Rightarrow> (st, halt + setup_data) state" where
  "stress_setup w TEST_DURATION =
     (case profile_of stress_LOAD_PROFILES TEST_DURATION of
        Undefined \<Rightarrow> return (Inl (Raised TypeError))
      | _ \<Rightarrow> return (Inr \<lparr>d_sharedRooms = [], d_tokenCache = None, d_startTime = True\<rparr>))"

subsection \<open>cai: the helper functions, setup and teardown\<close>

text \<open>The 10 message templates of cai, by position.\<close>

definition cai_MESSAGE_TEMPLATES :: "nat list" where
  "cai_MESSAGE_TEMPLATES = [0..<10]"

definition cai_login :: "world \<Rightarrow> email \<Rightarrow> string \<Rightarrow> (st, string option) state" where
  "cai_login w em pw = do {
     res \<leftarrow> http w (LoginReq em pw);
     success \<leftarrow> check ck_login_status (status res = 200);
     emit (Add authSuccessRate (of_bool success));
     return (if status res = 200 then string_of (body_data res) else None)
   }"

definition cai_createGroupChat ::
  "world \<Rightarrow> string \<Rightarrow> nat list \<Rightarrow> string \<Rightarrow> (st, room option) state" where
  "cai_createGroupChat w token memberIds password = do {
     res \<leftarrow> http w (CreateGroupReq token memberIds password);
     if status res = 200 then do {
       emit (Add groupChatCreated 1);
       return (room_of (body_data res))
     } else return None
   }"

text \<open>\<^verbatim>\<open>joinGroupRoom\<close> of cai makes no check; it returns whether the status is 200 or 400.\<close>

definition cai_joinGroupRoom ::
  "world \<Rightarrow> string \<Rightarrow> nat \<Rightarrow> string option \<Rightarrow> (st, bool) state" where
  "cai_joinGroupRoom w token roomId password = do {
     res \<leftarrow> http w (JoinReq token roomId (if truthy password then password else None));
     return (status res = 200 \<or> status res = 400)
   }"

text \<open>
  \<^verbatim>\<open>joinGroupRoom\<close> of the message-read script (a check on 200 or 400, and the
  same as the result) and of the concurrency script (no check).
\<close>

definition msgread_joinGroupRoom :: "world \<Rightarrow> string \<Rightarrow> nat \<Rightarrow> (st, bool) state" where
  "msgread_joinGroupRoom w token roomId = do {
     res \<leftarrow> http w (JoinReq token roomId None);
     _ \<leftarrow> check ck_join (status res = 200 \<or> status res = 400);
     return (status res = 200 \<or> status res = 400)
   }"

definition conc_joinGroupRoom :: "world \<Rightarrow> string \<Rightarrow> nat \<Rightarrow> (st, bool) state" where
  "conc_joinGroupRoom w token roomId = do {
     res \<leftarrow> http w (JoinReq token roomId None);
     return (status res = 200 \<or> status res = 400)
   }"

text \<open>A request together with the milliseconds the script measures around it.\<close>

definition http_timed :: "world \<Rightarrow> request \<Rightarrow> (st, response \<times> nat) state" where
  "http_timed w r = State (\<lambda>s. ((server w (http_n s) r, latency w (http_n s)),
                                 s\<lparr>trace := trace s @ [Http r], http_n := Suc (http_n s)\<rparr>))"

text \<open>
  \<^verbatim>\<open>sendMessage\<close> of cai. With translation on, a successful send that took less
  than 3000 ms is counted for Ollama, a slower one for the OpenAI fallback.
\<close>

definition cai_sendMessage ::
  "world \<Rightarrow> string \<Rightarrow> nat \<Rightarrow> chat_room_type \<Rightarrow> bool \<Rightarrow> (st, bool) state" where
  "cai_sendMessage w token roomId chatRoomType enableTranslation = do {
     (res, ms) \<leftarrow> http_timed w (FilesReq token roomId chatRoomType enableTranslation);
     emit (Observe messageSendLatency);
     (if enableTranslation then do {
        emit (Add translationRequested 1);
        emit (Observe translationLatency);
        translated \<leftarrow> check ck_translate (status res = 200);
        emit (Add translationSuccessRate (of_bool translated));
        if translated then
          (if ms < 3000 then do {
             emit (Add translationByOllama 1);
             emit (Observe translationOllamaLatency);
             emit (Add translationOllamaSuccessRate 1);
             emit (Add translationFallbackRate 0)
           } else do {
             emit (Add translationByOpenAI 1);
             emit (Observe translationOpenAILatency);
             emit (Add translationFallbackRate 1)
           })
        else emit (Add translationFailed 1)
      } else return ());
     success \<leftarrow> check ck_send (status res = 200);
     emit (Add messageSuccessRate (of_bool success));
     (if success then emit (Add messagesSent 1) else return ());
     return success
   }"

text \<open>
  \<^verbatim>\<open>sendAIMessage\<close> of cai. The script has no error rate; it counts every failed
  call in \<^verbatim>\<open>aiResponseFailed\<close> and the timed-out ones also in
  \<^verbatim>\<open>aiResponseTimeout\<close>.
\<close>

definition cai_sendAIMessage ::
  "world \<Rightarrow> string \<Rightarrow> nat \<Rightarrow> ai_room_type \<Rightarrow> (st, bool) state" where
  "cai_sendAIMessage w token roomId roomType = do {
     emit (Add aiRoomMessages 1);
     res \<leftarrow> http w (FilesReq token roomId AI False);
     emit (Observe aiResponseLatency);
     (case roomType of
        ROLE_PLAY \<Rightarrow> emit (Observe aiRolePlayLatency)
      | TUTOR_PERSONAL \<Rightarrow> emit (Observe aiTutorPersonalLatency)
      | TUTOR_SIMILAR \<Rightarrow> return ());
     success \<leftarrow> check ck_ai_send (status res = 200);
     (if success then do {
        emit (Add aiResponseSuccess 1);
        emit (Add aiSuccessRate 1);
        emit (Add aiTimeoutRate 0)
      } else do {
        emit (Add aiResponseFailed 1);
        emit (Add aiSuccessRate 0);
        if timed_out res then do {
          emit (Add aiResponseTimeout 1);
          emit (Add aiTimeoutRate 1)
        } else emit (Add aiTimeoutRate 0)
      });
     return success
   }"

text \<open>
  \<^verbatim>\<open>setup\<close> of cai. It prints \<^verbatim>\<open>TEST_DURATION\<close> but never reads the profile
  table; the value it returns has no token cache on either path.
\<close>

definition cai_setup :: "world \<Rightarrow> string \<Rightarrow> (st, js_error + setup_data) state" where
  "cai_setup w TEST_DURATION = do {
     let ownerUser = hd users;
     ownerToken \<leftarrow> cai_login w (u_email ownerUser) (u_password ownerUser);
     if \<not> truthy ownerToken then do {
       emit (ConsoleError OwnerLoginFailed);
       return (Inr \<lparr>d_sharedRooms = [], d_tokenCache = None, d_startTime = False\<rparr>)
     } else do {
       sharedRooms \<leftarrow> fold_each [0..<10] (\<lambda>i rooms. do {
         let memberIds = filter (\<lambda>userId. userId \<noteq> u_id ownerUser)
                           (map (\<lambda>j. (i * 10 + j) mod length users + 1) [1..<11]);
         room \<leftarrow> cai_createGroupChat w (token_text ownerToken) (take 5 memberIds) [];
         rooms' \<leftarrow> (case room of
            None \<Rightarrow> return rooms
          | Some rm \<Rightarrow> do {
              for_each [1..<21] (\<lambda>k. do {
                content \<leftarrow> randomItem w cai_MESSAGE_TEMPLATES;
                _ \<leftarrow> cai_sendMessage w (token_text ownerToken) (r_id rm) GROUP False;
                return ()
              });
              return (rooms @ [rm])
            });
         sleep (1 / 2);
         return rooms'
       }) [];
       return (Inr \<lparr>d_sharedRooms = sharedRooms, d_tokenCache = None, d_startTime = True\<rparr>)
     }
   }"

text \<open>
  \<^verbatim>\<open>teardown\<close> of cai: the cleanup part is, line for line, that of dg. It takes
  \<^verbatim>\<open>tokenCache\<close> out of the setup data and reads its entry 1.
\<close>

definition cai_teardown :: "world \<Rightarrow> setup_data \<Rightarrow> (st, js_error + unit) state" where
  "cai_teardown w data =
     (case d_tokenCache data of
        None \<Rightarrow> return (Inl TypeError)
      | Some tokenCache \<Rightarrow> do {
          let ownerToken = tokenCache 1;
          if \<not> truthy ownerToken then do {
            emit (ConsoleError CleanupNoToken);
            return (Inr ())
          } else do {
            cleanupRes \<leftarrow> http w (CleanupReq (token_text ownerToken));
            (if status cleanupRes = 200 then return ()
             else emit (ConsoleError CleanupFailed));
            return (Inr ())
          }
        })"

section \<open>Reasoning about runs\<close>

text \<open>The state a program ends in, and the value it returns.\<close>

definition exec :: "(st, 'a) state \<Rightarrow> st \<Rightarrow> st" where
  "exec m s = snd (run_state m s)"

definition result :: "(st, 'a) state \<Rightarrow> st \<Rightarrow> 'a" where
  "result m s = fst (run_state m s)"

text \<open>
  \<open>quiet F m\<close>: the program \<open>m\<close> adds no event that \<open>F\<close> selects.
  \<open>emits F m es\<close>: on every path, the events of \<open>F\<close> it adds are exactly \<open>es\<close>.
\<close>

definition quiet :: "(event \<Rightarrow> bool) \<Rightarrow> (st, 'a) state \<Rightarrow> bool" where
  "quiet F m \<longleftrightarrow> (\<forall>s. filter F (trace (exec m s)) = filter F (trace s))"

definition emits :: "(event \<Rightarrow> bool) \<Rightarrow> (st, 'a) state \<Rightarrow> event list \<Rightarrow> bool" where
  "emits F m es \<longleftrightarrow> (\<forall>s. filter F (trace (exec m s)) = filter F (trace s) @ es)"

text \<open>The arguments of the \<^verbatim>\<open>add\<close> calls on one metric, in order.\<close>

fun is_add :: "metric \<Rightarrow> event \<Rightarrow> bool" where
  "is_add g (Add m v) = (m = g)"
| "is_add g _ = False"

fun add_value :: "event \<Rightarrow> int" where
  "add_value (Add m v) = v"
| "add_value _ = 0"

definition added :: "metric \<Rightarrow> event list \<Rightarrow> int list" where
  "added g es = map add_value (filter (is_add g) es)"

text \<open>The requests among the events, in order.\<close>

fun is_http :: "event \<Rightarrow> bool" where
  "is_http (Http r) = True"
| "is_http _ = False"




definition accepted :: "response \<Rightarrow> bool" where
  "accepted res \<longleftrightarrow>
     status res = 200 \<and> js_truthy (body_data res) \<and> has_length (body_data res)"

text \<open>
  \<open>ends F m es cs\<close>, for a program that may end early: the events of \<open>F\<close> it
  adds are \<open>es\<close> when it returns and \<open>cs\<close> when it raises an exception.
\<close>

definition ends ::
  "(event \<Rightarrow> bool) \<Rightarrow> (st, halt + 'a) state \<Rightarrow> event list \<Rightarrow> event list \<Rightarrow> bool" where
  "ends F m es cs \<longleftrightarrow>
     (\<forall>s. case result m s of
            Inr a \<Rightarrow> filter F (trace (exec m s)) = filter F (trace s) @ es
          | Inl (Raised e) \<Rightarrow> filter F (trace (exec m s)) = filter F (trace s) @ cs
          | Inl Untyped \<Rightarrow> True)"

subsection \<open>Concrete runs\<close>

text \<open>The state at the start of a run.\<close>

definition start :: st where
  "start = \<lparr>trace = [], http_n = 0, rnd_n = 0\<rparr>"

definition answer :: "int \<Rightarrow> json \<Rightarrow> response" where
  "answer code d = \<lparr>status = code, timed_out = False, body_data = d\<rparr>"

text \<open>A backend that answers every request with the same status and no data.\<close>

definition always :: "int \<Rightarrow> world" where
  "always code = \<lparr>server = (\<lambda>n r. answer code JNull), rnd = (\<lambda>n. 0), latency = (\<lambda>n. 0)\<rparr>"

text \<open>A backend on which every request times out.\<close>

definition timing_out :: world where
  "timing_out = \<lparr>server = (\<lambda>n r. \<lparr>status = 0, timed_out = True, body_data = JNull\<rparr>),
                  rnd = (\<lambda>n. 0), latency = (\<lambda>n. 30000)\<rparr>"

text \<open>
  A backend that lets everyone log in with the token \<^verbatim>\<open>tok\<close> and answers every
  other request with 200 and no data.
\<close>

definition welcoming :: world where
  "welcoming = \<lparr>server = (\<lambda>n r. case r of
                               LoginReq em pw \<Rightarrow> answer 200 (JString ''tok'')
                             | _ \<Rightarrow> answer 200 JNull),
                 rnd = (\<lambda>n. 0), latency = (\<lambda>n. 0)\<rparr>"



text \<open>The login requests, and those of the user with a given id.\<close>

fun is_login :: "event \<Rightarrow> bool" where
  "is_login (Http (LoginReq em pw)) = True"
| "is_login _ = False"

fun is_login_of :: "nat \<Rightarrow> event \<Rightarrow> bool" where
  "is_login_of u (Http (LoginReq (TestEmail i) pw)) = (i = u)"
| "is_login_of u _ = False"

text \<open>The id of the user that the virtual user numbered \<open>vu\<close> plays.\<close>

definition user_id_of_vu :: "nat \<Rightarrow> nat" where
  "user_id_of_vu vu = u_id (users ! ((vu - 1) mod length users))"

section \<open>Properties\<close>

subsection \<open>Rules for runs\<close>

lemma exec_bind: "exec (State_Monad.bind m f) s = exec (f (result m s)) (exec m s)"
  by (simp add: exec_def result_def split_def)

lemma result_bind: "result (State_Monad.bind m f) s = result (f (result m s)) (exec m s)"
  by (simp add: exec_def result_def split_def)

lemma exec_return [simp]: "exec (return a) s = s"
  by (simp add: exec_def)

lemma result_return [simp]: "result (return a) s = a"
  by (simp add: result_def)

lemma run_state_exec_result: "run_state m s = (result m s, exec m s)"
  by (simp add: exec_def result_def)

lemma exec_emit [simp]: "exec (emit e) s = s\<lparr>trace := trace s @ [e]\<rparr>"
  by (simp add: exec_def emit_def)

lemma exec_http [simp]:
  "exec (http w r) s = s\<lparr>trace := trace s @ [Http r], http_n := Suc (http_n s)\<rparr>"
  by (simp add: exec_def http_def)

lemma result_http [simp]: "result (http w r) s = server w (http_n s) r"
  by (simp add: result_def http_def)

lemma exec_check [simp]: "exec (check l b) s = s\<lparr>trace := trace s @ [Check l b]\<rparr>"
  by (simp add: check_def exec_bind)

lemma result_check [simp]: "result (check l b) s = b"
  by (simp add: check_def result_bind)

lemma exec_sleep [simp]: "exec (sleep d) s = s\<lparr>trace := trace s @ [Sleep d]\<rparr>"
  by (simp add: sleep_def)

lemma exec_Math_random [simp]: "exec (Math_random w) s = s\<lparr>rnd_n := Suc (rnd_n s)\<rparr>"
  by (simp add: exec_def Math_random_def)

lemma result_Math_random [simp]:
  "result (Math_random w) s = double_below (frac (rnd w (rnd_n s)))"
  by (simp add: result_def Math_random_def)

lemma exec_randomIntBetween [simp]:
  "exec (randomIntBetween w lo hi) s = s\<lparr>rnd_n := Suc (rnd_n s)\<rparr>"
  by (simp add: randomIntBetween_def exec_bind)


lemma exec_randomItem [simp]: "exec (randomItem w xs) s = s\<lparr>rnd_n := Suc (rnd_n s)\<rparr>"
  by (simp add: randomItem_def exec_bind)


subsection \<open>Rules for \<open>quiet\<close> and \<open>emits\<close>\<close>

lemma quietD: "quiet F m \<Longrightarrow> filter F (trace (exec m s)) = filter F (trace s)"
  by (simp add: quiet_def)

lemma emitsD: "emits F m es \<Longrightarrow> filter F (trace (exec m s)) = filter F (trace s) @ es"
  by (simp add: emits_def)

lemma quiet_return: "quiet F (return a)"
  by (simp add: quiet_def)

lemma quiet_bind:
  "quiet F m \<Longrightarrow> (\<And>a. quiet F (f a)) \<Longrightarrow> quiet F (State_Monad.bind m f)"
  by (simp add: quiet_def exec_bind)

lemma quiet_if: "quiet F a \<Longrightarrow> quiet F b \<Longrightarrow> quiet F (if c then a else b)"
  by simp

lemma quiet_Let: "(\<And>y. quiet F (f y)) \<Longrightarrow> quiet F (Let x f)"
  by (simp add: Let_def)

lemma quiet_case_option:
  "quiet F a \<Longrightarrow> (\<And>x. quiet F (f x)) \<Longrightarrow> quiet F (case t of None \<Rightarrow> a | Some x \<Rightarrow> f x)"
  by (cases t) simp_all

lemma quiet_case_prod:
  "(\<And>a b. quiet F (f a b)) \<Longrightarrow> quiet F (case p of (a, b) \<Rightarrow> f a b)"
  by (cases p) simp

lemma quiet_case_ai_room_type:
  "quiet F a \<Longrightarrow> quiet F b \<Longrightarrow> quiet F c
   \<Longrightarrow> quiet F (case t of ROLE_PLAY \<Rightarrow> a | TUTOR_PERSONAL \<Rightarrow> b | TUTOR_SIMILAR \<Rightarrow> c)"
  by (cases t) simp_all

lemma quiet_emit: "\<not> F e \<Longrightarrow> quiet F (emit e)"
  by (simp add: quiet_def)

lemma quiet_http: "\<not> F (Http r) \<Longrightarrow> quiet F (http w r)"
  by (simp add: quiet_def)

lemma quiet_http_timed: "\<not> F (Http r) \<Longrightarrow> quiet F (http_timed w r)"
  by (simp add: quiet_def exec_def http_timed_def)

lemma quiet_check: "\<not> F (Check l b) \<Longrightarrow> quiet F (check l b)"
  by (simp add: quiet_def)

lemma quiet_sleep: "\<not> F (Sleep d) \<Longrightarrow> quiet F (sleep d)"
  by (simp add: quiet_def)

lemma quiet_Math_random: "quiet F (Math_random w)"
  by (simp add: quiet_def)

lemma quiet_randomIntBetween: "quiet F (randomIntBetween w lo hi)"
  by (simp add: quiet_def)

lemma quiet_randomItem: "quiet F (randomItem w xs)"
  by (simp add: quiet_def)

lemma quiet_for_each: "(\<And>x. quiet F (body x)) \<Longrightarrow> quiet F (for_each xs body)"
  by (induction xs) (simp_all add: quiet_return quiet_bind)

lemma quiet_fold_each:
  "(\<And>x acc. quiet F (body x acc)) \<Longrightarrow> quiet F (fold_each xs body acc)"
  by (induction xs arbitrary: acc) (simp_all add: quiet_return quiet_bind)

lemma quiet_http_batch: "(\<And>r. r \<in> set reqs \<Longrightarrow> \<not> F (Http r)) \<Longrightarrow> quiet F (http_batch w reqs)"
proof -
  assume a: "\<And>r. r \<in> set reqs \<Longrightarrow> \<not> F (Http r)"
  have "quiet F (fold_each reqs (\<lambda>r acc. do { res \<leftarrow> http w r; return (acc @ [res]) }) acc)"
    for acc
    using a
  proof (induction reqs arbitrary: acc)
    case Nil
    then show ?case by (simp add: quiet_return)
  next
    case (Cons r reqs)
    show ?case
      apply simp
      apply (intro quiet_bind quiet_http quiet_return Cons.IH)
       apply (simp_all add: Cons.prems)
      done
  qed
  then show ?thesis
    by (simp add: http_batch_def)
qed

lemma redrawn_for_unfold:
  "redrawn_for w lo hi body i s =
     (if int i < result (randomIntBetween w lo hi) s
      then redrawn_for w lo hi body (Suc i) (exec (body i) (exec (randomIntBetween w lo hi) s))
      else exec (randomIntBetween w lo hi) s)"
  by (subst redrawn_for.simps) (simp add: exec_def result_def split_def)

lemma quiet_redrawn_for:
  "\<forall>i. quiet F (body i)
   \<Longrightarrow> filter F (trace (redrawn_for w lo hi body i s)) = filter F (trace s)"
proof (induction w lo hi body i s rule: redrawn_for.induct)
  case (1 w lo hi body i s)
  have q: "quiet F (body j)" for j
    using "1.prems" by simp
  show ?case
  proof (cases "int i < result (randomIntBetween w lo hi) s")
    case True
    have "filter F (trace (redrawn_for w lo hi body i s))
        = filter F (trace (redrawn_for w lo hi body (Suc i)
            (exec (body i) (exec (randomIntBetween w lo hi) s))))"
      using True by (subst redrawn_for_unfold) simp
    also have "\<dots> = filter F (trace (exec (body i) (exec (randomIntBetween w lo hi) s)))"
      unfolding exec_def
      by (rule "1.IH", rule prod.collapse)
         (use True "1.prems" in \<open>simp_all add: result_def\<close>)
    also have "\<dots> = filter F (trace s)"
      by (simp only: quietD [OF q] quietD [OF quiet_randomIntBetween])
    finally show ?thesis .
  next
    case False
    then show ?thesis
      by (subst redrawn_for_unfold) simp
  qed
qed

lemma quiet_redrawn_for_state:
  assumes "\<And>i. quiet F (body i)"
  shows "quiet F (State (\<lambda>s. ((), redrawn_for w lo hi body i s)))"
proof -
  have "exec (State (\<lambda>s. ((), redrawn_for w lo hi body i s))) s = redrawn_for w lo hi body i s"
    for s
    by (simp add: exec_def)
  then show ?thesis
    unfolding quiet_def using quiet_redrawn_for [of F body] assms by simp
qed

lemma exec_attempt:
  "exec (attempt m f) s = (case result m s of Inl h \<Rightarrow> exec m s | Inr a \<Rightarrow> exec (f a) (exec m s))"
  by (simp add: attempt_def exec_bind split: sum.split)


lemma quiet_attempt: "quiet F m \<Longrightarrow> (\<And>a. quiet F (f a)) \<Longrightarrow> quiet F (attempt m f)"
  by (simp add: quiet_def exec_attempt split: sum.split)

lemma quiet_attempt_each: "(\<And>x. quiet F (body x)) \<Longrightarrow> quiet F (attempt_each xs body)"
  by (induction xs) (simp_all add: quiet_return quiet_attempt)

lemma quiet_attempt_fold:
  "(\<And>x acc. quiet F (body x acc)) \<Longrightarrow> quiet F (attempt_fold xs body acc)"
  by (induction xs arbitrary: acc) (simp_all add: quiet_return quiet_attempt)

lemma quiet_case_prod_acc:
  "(\<And>a b. quiet F (f a b c)) \<Longrightarrow> quiet F ((case p of (a, b) \<Rightarrow> f a b) c)"
  by (cases p) simp

lemmas quiet_rules =
  quiet_bind quiet_if quiet_Let quiet_case_option quiet_case_prod quiet_case_ai_room_type
  quiet_return quiet_emit quiet_http quiet_http_timed quiet_check quiet_sleep
  quiet_Math_random quiet_randomIntBetween quiet_randomItem quiet_for_each quiet_fold_each
  quiet_attempt quiet_attempt_each quiet_attempt_fold

lemma emits_quiet_bind:
  "quiet F m \<Longrightarrow> (\<And>a. emits F (f a) es) \<Longrightarrow> emits F (State_Monad.bind m f) es"
  by (simp add: quiet_def emits_def exec_bind)

lemma emits_hit_bind:
  "F e \<Longrightarrow> (\<And>a. emits F (f a) es) \<Longrightarrow> emits F (State_Monad.bind (emit e) f) (e # es)"
  by (simp add: emits_def exec_bind)

lemma emits_hit: "F e \<Longrightarrow> emits F (emit e) [e]"
  by (simp add: emits_def)

lemma emits_if: "emits F a es \<Longrightarrow> emits F b es \<Longrightarrow> emits F (if c then a else b) es"
  by simp

lemma emits_Let: "(\<And>y. emits F (f y) es) \<Longrightarrow> emits F (Let x f) es"
  by (simp add: Let_def)

lemma emits_case_option:
  "emits F a es \<Longrightarrow> (\<And>x. emits F (f x) es)
   \<Longrightarrow> emits F (case t of None \<Rightarrow> a | Some x \<Rightarrow> f x) es"
  by (cases t) simp_all

subsection \<open>Rules for runs that may end early\<close>



lemma endsD:
  "ends F m es cs \<Longrightarrow>
     (case result m s of
        Inr a \<Rightarrow> filter F (trace (exec m s)) = filter F (trace s) @ es
      | Inl (Raised e) \<Rightarrow> filter F (trace (exec m s)) = filter F (trace s) @ cs
      | Inl Untyped \<Rightarrow> True)"
  by (simp add: ends_def)



lemma ends_hit_bind:
  assumes "F e" and "\<And>a. ends F (f a) es cs"
  shows "ends F (State_Monad.bind (emit e) f) (e # es) (e # cs)"
  unfolding ends_def
proof
  fix s
  show "case result (State_Monad.bind (emit e) f) s of
          Inr a \<Rightarrow>
            filter F (trace (exec (State_Monad.bind (emit e) f) s)) = filter F (trace s) @ e # es
        | Inl (Raised x) \<Rightarrow>
            filter F (trace (exec (State_Monad.bind (emit e) f) s)) = filter F (trace s) @ e # cs
        | Inl Untyped \<Rightarrow> True"
    using endsD [OF assms(2), of "result (emit e) s" "exec (emit e) s"] assms(1)
    by (simp add: exec_bind result_bind split: sum.splits halt.splits)
qed







lemma filter_added: "filter (is_add g) es' = filter (is_add g) es @ fs
  \<Longrightarrow> added g es' = added g es @ map add_value fs"
  by (simp add: added_def)

subsection \<open>Scenario dispatch\<close>

text \<open>
  C1. For every draw in [0,100) the threshold tests of the per-iteration dispatch
  select exactly one scenario: exactly one band of the table holds the draw (no
  gap, no overlap), and it is the band of the scenario the \<^verbatim>\<open>if\<close> chain runs. This
  holds for the dispatch of each of the four scripts that have one.
\<close>

theorem dispatch_exactly_one:
  assumes "0 \<le> d" and "d < 100"
  shows "hits d (bands 0 comp_table) = [comp_dispatch d]
       \<and> hits d (bands 0 cai_table) = [cai_dispatch d]
       \<and> hits d (bands 0 dg_table) = [dg_dispatch d]
       \<and> hits d (bands 0 stress_table) = [stress_dispatch d]"
proof (intro conjI)
  show "hits d (bands 0 comp_table) = [comp_dispatch d]"
    using assms by (simp add: comp_table_def comp_dispatch_def)
  show "hits d (bands 0 cai_table) = [cai_dispatch d]"
    using assms by (simp add: cai_table_def cai_dispatch_def)
  show "hits d (bands 0 dg_table) = [dg_dispatch d]"
    using assms by (simp add: dg_table_def dg_dispatch_def)
  show "hits d (bands 0 stress_table) = [stress_dispatch d]"
    using assms by (simp add: stress_table_def stress_dispatch_def)
qed

theorem dispatch_exactly_one_witness:
  "hits 93 (bands 0 comp_table) = [RoomManager] \<and> comp_dispatch 93 = RoomManager
   \<and> hits 93 (bands 0 cai_table) = [ActiveUser] \<and> cai_dispatch 93 = ActiveUser"
  using dispatch_exactly_one [of 93] by (simp add: comp_dispatch_def cai_dispatch_def)

subsection \<open>Load profiles\<close>

text \<open>
  C5. Every configured load-duration profile ends at zero virtual users: each
  named entry of each \<^verbatim>\<open>LOAD_PROFILES\<close> table, and the fixed stage list of the
  message-read script, has a last stage, and its target is 0.
\<close>

theorem final_stage_ramps_to_zero:
  "map final_target all_stage_lists = replicate 16 (Some 0)"
  by (simp add: all_stage_lists_def final_target_def stg_def comp_LOAD_PROFILES_def
      dg_LOAD_PROFILES_def stress_LOAD_PROFILES_def cai_LOAD_PROFILES_def
      conc_LOAD_PROFILES_def msgread_stages_def numeral_eq_Suc)

subsection \<open>Joining a room one is already in\<close>

text \<open>
  C3, as stated, fails: whether a join is recorded as a success depends on the
  status. The check of comp fails on 409, and the check of dg fails on 400, the
  status comp reads as "already joined"; dg reports that join as failed.
\<close>

theorem join_already_member_counterexample:
  "trace (exec (comp_joinGroupRoom (always 409) ''tok'' 3 None) start)
     = [Http (JoinReq ''tok'' 3 None), Check ck_join False]
   \<and> trace (exec (dg_joinGroupRoom (always 400) ''tok'' 3 None) start)
     = [Http (JoinReq ''tok'' 3 None), Observe roomJoinLatency, Check ck_join False,
        ConsoleError (JoinFailed 3)]"
  by (simp add: comp_joinGroupRoom_def dg_joinGroupRoom_def exec_bind result_bind
      always_def answer_def start_def)

text \<open>
  C3, amended. Each script fixes the statuses it takes for a successful join. In
  comp and in the message-read script the check passes exactly on 200 and 400 (400
  being the one status read as "already joined"). In dg the check passes exactly on
  200, and any other status is reported as a failed join. cai and the concurrency
  script make no check and return true exactly on 200 and 400.
\<close>

theorem join_success_by_status:
  "(let req = JoinReq token roomId (if truthy password then password else None);
        res = server w (http_n s) req
    in trace (exec (comp_joinGroupRoom w token roomId password) s)
         = trace s @ [Http req, Check ck_join (status res = 200 \<or> status res = 400)]
     \<and> trace (exec (dg_joinGroupRoom w token roomId password) s)
         = trace s @ [Http req, Observe roomJoinLatency, Check ck_join (status res = 200),
                      if status res = 200 then Add roomsJoined 1
                      else ConsoleError (JoinFailed roomId)]
     \<and> run_state (cai_joinGroupRoom w token roomId password) s
         = (status res = 200 \<or> status res = 400,
            s\<lparr>trace := trace s @ [Http req], http_n := Suc (http_n s)\<rparr>))
   \<and> (let req = JoinReq token roomId None;
            res = server w (http_n s) req
        in trace (exec (msgread_joinGroupRoom w token roomId) s)
             = trace s @ [Http req, Check ck_join (status res = 200 \<or> status res = 400)]
         \<and> run_state (conc_joinGroupRoom w token roomId) s
             = (status res = 200 \<or> status res = 400,
                s\<lparr>trace := trace s @ [Http req], http_n := Suc (http_n s)\<rparr>))"
  by (simp add: comp_joinGroupRoom_def dg_joinGroupRoom_def cai_joinGroupRoom_def
      msgread_joinGroupRoom_def conc_joinGroupRoom_def exec_bind result_bind Let_def
      run_state_exec_result)

theorem join_success_by_status_witness:
  "trace (exec (comp_joinGroupRoom (always 400) ''tok'' 3 None) start)
     = [Http (JoinReq ''tok'' 3 None), Check ck_join True]
   \<and> trace (exec (dg_joinGroupRoom (always 200) ''tok'' 3 None) start)
     = [Http (JoinReq ''tok'' 3 None), Observe roomJoinLatency, Check ck_join True,
        Add roomsJoined 1]"
  using join_success_by_status [of "''tok''" 3 None "always 400" start]
    join_success_by_status [of "''tok''" 3 None "always 200" start]
  by (simp add: Let_def always_def answer_def start_def)

subsection \<open>Timeouts and failures of AI messages\<close>

text \<open>
  C4, as stated, fails: a call that times out is counted both as a failure and as a
  timeout. In cai, which has no error rate, \<^verbatim>\<open>aiResponseFailed\<close> is the metric of
  failed calls, and a timed-out call adds 1 to it and 1 to \<^verbatim>\<open>aiResponseTimeout\<close>
  and to the timeout rate; the counters of stress do the same.
\<close>

theorem ai_timeout_counted_as_failure_counterexample:
  "added aiResponseFailed (trace (exec (cai_sendAIMessage timing_out ''tok'' 3 ROLE_PLAY) start)) = [1]
   \<and> added aiResponseTimeout (trace (exec (cai_sendAIMessage timing_out ''tok'' 3 ROLE_PLAY) start)) = [1]
   \<and> added aiTimeoutRate (trace (exec (cai_sendAIMessage timing_out ''tok'' 3 ROLE_PLAY) start)) = [1]
   \<and> added aiResponseFailed (trace (exec (stress_sendAIMessage timing_out ''tok'' 3 ROLE_PLAY) start)) = [1]
   \<and> added aiResponseTimeout (trace (exec (stress_sendAIMessage timing_out ''tok'' 3 ROLE_PLAY) start)) = [1]"
  by (simp add: cai_sendAIMessage_def stress_sendAIMessage_def exec_bind result_bind Let_def
      timing_out_def start_def added_def)

text \<open>
  C4, amended. In stress, every call of \<^verbatim>\<open>sendAIMessage\<close> adds one sample to the
  timeout rate and one to the error rate, and never 1 to both: a failed call that
  timed out adds 1 and 0, a failed call that did not time out adds 0 and 1, a
  successful call adds 0 and 0. The counter \<^verbatim>\<open>aiResponseFailed\<close> counts every
  failed call, timed out or not, and \<^verbatim>\<open>aiResponseTimeout\<close> those of them that
  timed out. cai records the timeout rate and the two counters in the same way and
  has no error rate.
\<close>

theorem ai_timeout_and_error_rates:
  "(let res = server w (http_n s) (FilesReq token roomId AI False);
        success = (status res = 200 \<and> body_data res \<noteq> JNull);
        es = trace (exec (stress_sendAIMessage w token roomId roomType) s)
    in result (stress_sendAIMessage w token roomId roomType) s = success
     \<and> added aiTimeoutRate es
         = added aiTimeoutRate (trace s) @ [if \<not> success \<and> timed_out res then 1 else 0]
     \<and> added aiErrorRate es
         = added aiErrorRate (trace s) @ [if \<not> success \<and> \<not> timed_out res then 1 else 0]
     \<and> added aiResponseFailed es
         = added aiResponseFailed (trace s) @ (if success then [] else [1])
     \<and> added aiResponseTimeout es
         = added aiResponseTimeout (trace s) @ (if \<not> success \<and> timed_out res then [1] else []))
   \<and> (let res = server w (http_n s) (FilesReq token roomId AI False);
            success = (status res = 200);
            es = trace (exec (cai_sendAIMessage w token roomId roomType) s)
        in result (cai_sendAIMessage w token roomId roomType) s = success
         \<and> added aiTimeoutRate es
             = added aiTimeoutRate (trace s) @ [if \<not> success \<and> timed_out res then 1 else 0]
         \<and> added aiErrorRate es = added aiErrorRate (trace s)
         \<and> added aiResponseFailed es
             = added aiResponseFailed (trace s) @ (if success then [] else [1])
         \<and> added aiResponseTimeout es
             = added aiResponseTimeout (trace s)
               @ (if \<not> success \<and> timed_out res then [1] else []))"
  by (cases roomType)
     (simp_all add: stress_sendAIMessage_def cai_sendAIMessage_def exec_bind result_bind
        Let_def added_def)

theorem ai_timeout_and_error_rates_witness:
  "added aiTimeoutRate (trace (exec (stress_sendAIMessage timing_out ''tok'' 3 ROLE_PLAY) start)) = [1]
   \<and> added aiErrorRate (trace (exec (stress_sendAIMessage timing_out ''tok'' 3 ROLE_PLAY) start)) = [0]
   \<and> added aiTimeoutRate (trace (exec (stress_sendAIMessage (always 500) ''tok'' 3 ROLE_PLAY) start)) = [0]
   \<and> added aiErrorRate (trace (exec (stress_sendAIMessage (always 500) ''tok'' 3 ROLE_PLAY) start)) = [1]"
  using ai_timeout_and_error_rates [of timing_out start "''tok''" 3 ROLE_PLAY]
    ai_timeout_and_error_rates [of "always 500" start "''tok''" 3 ROLE_PLAY]
  by (simp add: Let_def timing_out_def always_def answer_def start_def added_def)

subsection \<open>The cleanup call of cai\<close>

text \<open>
  C9. Whatever the backend answers, the value that \<^verbatim>\<open>setup\<close> of cai returns has
  no \<^verbatim>\<open>tokenCache\<close>. \<^verbatim>\<open>teardown\<close>, given that value, raises a TypeError on
  reading \<^verbatim>\<open>tokenCache[1]\<close> and leaves the state of the run as it found it: no
  request is sent, so the cleanup endpoint is never called.
\<close>

theorem cai_cleanup_never_issued:
  "(case result (cai_setup w name) s of
      Inl e \<Rightarrow> False
    | Inr data \<Rightarrow>
        d_tokenCache data = None
        \<and> run_state (cai_teardown w' data) s' = (Inl TypeError, s'))"
  by (simp add: cai_setup_def result_bind Let_def cai_teardown_def)

subsection \<open>comp: the active-users gauge\<close>

















lemma added_sleep [simp]: "added g (es @ [Sleep d]) = added g es"
  by (simp add: added_def)


lemma double_below_0 [simp]: "double_below 0 = 0"
  by (simp add: double_below_def)

lemma double_of_0 [simp]: "double_of 0 = 0"
  by (simp add: double_of_def round_half_even_def)

lemma floor_rat_numeral: "\<lfloor>(numeral a :: rat) / numeral b\<rfloor> = numeral a div numeral b"
  using floor_divide_of_int_eq [of "numeral a" "numeral b", where ?'a = rat] by simp

lemma halvings_numeral [simp]:
  "halvings (numeral k) x = (if x < 2 then 0 else Suc (halvings (pred_numeral k) (x / 2)))"
  by (simp add: numeral_eq_Suc)

lemma doublings_numeral [simp]:
  "doublings (numeral k) x = (if 1 \<le> x then 0 else Suc (doublings (pred_numeral k) (2 * x)))"
  by (simp add: numeral_eq_Suc)

lemmas double_eval =
  double_of_def double_below_def ulp_def exponent_def pow2_def round_half_even_def Let_def
  floor_rat_numeral


lemma double_3_10: "double_of (3 / 10) = 5404319552844595 / 18014398509481984"
  by (simp add: double_eval)




subsection \<open>An unrecognized profile name\<close>

lemma hd_users: "hd users = mk_user 1"
  by (simp add: users_def hd_map)

lemma emits_then:
  "emits F m es \<Longrightarrow> (\<And>a. quiet F (f a)) \<Longrightarrow> emits F (State_Monad.bind m f) es"
  by (simp add: quiet_def emits_def exec_bind)

lemma login_cai_login: "emits is_login (cai_login w em pw) [Http (LoginReq em pw)]"
  by (simp add: emits_def cai_login_def exec_bind)

lemma login_cai_createGroupChat: "quiet is_login (cai_createGroupChat w t ms p)"
  unfolding cai_createGroupChat_def by (intro quiet_rules) simp_all

lemma login_cai_sendMessage: "quiet is_login (cai_sendMessage w t r c tr)"
  unfolding cai_sendMessage_def by (intro quiet_rules) simp_all

lemma login_cai_setup:
  "filter is_login (trace (exec (cai_setup w name) s))
   = filter is_login (trace s) @ [Http (LoginReq (TestEmail 1) ''test1234'')]"
proof -
  have "emits is_login (cai_setup w name) [Http (LoginReq (TestEmail 1) ''test1234'')]"
    unfolding cai_setup_def hd_users Let_def
    apply (rule emits_then)
     apply (simp add: mk_user_def login_cai_login)
    apply (intro quiet_rules login_cai_createGroupChat login_cai_sendMessage)
     apply simp_all
    done
  then show ?thesis
    by (rule emitsD)
qed

lemma login_comp_login: "emits is_login (comp_login w em pw) [Http (LoginReq em pw)]"
  by (simp add: emits_def comp_login_def exec_bind)

lemma login_comp_createGroupChat: "quiet is_login (comp_createGroupChat w t ms p)"
  unfolding comp_createGroupChat_def by (intro quiet_rules) simp_all

lemma login_comp_sendMessageViaREST: "quiet is_login (comp_sendMessageViaREST w t r c)"
  unfolding comp_sendMessageViaREST_def by (intro quiet_rules) simp_all

lemma login_comp_setup:
  assumes "profile_of comp_LOAD_PROFILES name \<noteq> Undefined"
  shows "filter is_login (trace (exec (comp_setup w name) s))
         = filter is_login (trace s) @ [Http (LoginReq (TestEmail 1) ''test1234'')]"
proof -
  have "emits is_login (comp_setup w name) [Http (LoginReq (TestEmail 1) ''test1234'')]"
    using assms unfolding comp_setup_def hd_users Let_def
    apply (cases "profile_of comp_LOAD_PROFILES name"; simp)
     apply (rule emits_then)
      apply (simp add: mk_user_def login_comp_login)
     apply (intro quiet_rules login_comp_createGroupChat login_comp_sendMessageViaREST)
       apply simp_all
    apply (rule emits_then)
     apply (simp add: mk_user_def login_comp_login)
    apply (intro quiet_rules login_comp_createGroupChat login_comp_sendMessageViaREST)
      apply simp_all
    done
  then show ?thesis
    by (rule emitsD)
qed

text \<open>The login loop of dg's \<^verbatim>\<open>setup\<close> sends the login requests of all users, in order.\<close>

lemma filter_http_batch:
  "filter F (trace (exec (http_batch w reqs) s)) = filter F (trace s) @ filter F (map Http reqs)"
proof -
  have "filter F (trace (exec (fold_each reqs
            (\<lambda>r acc. do { res \<leftarrow> http w r; return (acc @ [res]) }) acc) s))
        = filter F (trace s) @ filter F (map Http reqs)" for acc
    by (induction reqs arbitrary: acc s) (simp_all add: exec_bind)
  then show ?thesis
    by (simp add: http_batch_def)
qed

lemma login_dg_setup_login_result: "quiet is_login (dg_setup_login_result user res c)"
  unfolding dg_setup_login_result_def by (intro quiet_rules) simp_all

lemma login_dg_setup_login_batch:
  "emits is_login (dg_setup_login_batch w b c)
     (map (\<lambda>u. Http (LoginReq (u_email u) (u_password u))) (take loginBatchSize (drop b users)))"
proof -
  have q: "quiet is_login (fold_each (zip us rs)
             (\<lambda>(user, res) cache. dg_setup_login_result user res cache) c)" for us rs
    by (intro quiet_rules quiet_case_prod_acc login_dg_setup_login_result)
  have "filter is_login (map Http (map (\<lambda>u. LoginReq (u_email u) (u_password u)) us))
        = map (\<lambda>u. Http (LoginReq (u_email u) (u_password u))) us" for us
    by (induction us) simp_all
  then show ?thesis
    by (simp add: emits_def dg_setup_login_batch_def Let_def exec_bind quietD [OF q]
        filter_http_batch)
qed

lemma emits_fold_each:
  assumes "\<And>x acc. emits F (body x acc) (g x)"
  shows "emits F (fold_each xs body acc) (concat (map g xs))"
proof (induction xs arbitrary: acc)
  case Nil
  then show ?case by (simp add: emits_def)
next
  case (Cons x xs)
  show ?case
    using emitsD [OF assms, of x acc] emitsD [OF Cons.IH]
    by (simp add: emits_def exec_bind)
qed

lemma login_batches: "filter (\<lambda>i. i mod loginBatchSize = 0) [0..<length users] = [0, 20, 40, 60, 80]"
  by (simp add: users_def loginBatchSize_def upt_rec)

lemma batches_of_20:
  assumes "length xs = 100"
  shows "concat (map (\<lambda>b. take 20 (drop b xs)) [0, 20, 40, 60, 80]) = xs"
proof -
  have "take 20 (drop 80 xs) = drop 80 xs"
    using assms by simp
  moreover have "take 20 (drop 60 xs) @ drop 80 xs = drop 60 xs"
    using append_take_drop_id [of 20 "drop 60 xs"] by simp
  moreover have "take 20 (drop 40 xs) @ drop 60 xs = drop 40 xs"
    using append_take_drop_id [of 20 "drop 40 xs"] by simp
  moreover have "take 20 (drop 20 xs) @ drop 40 xs = drop 20 xs"
    using append_take_drop_id [of 20 "drop 20 xs"] by simp
  moreover have "take 20 xs @ drop 20 xs = xs"
    by (rule append_take_drop_id)
  ultimately show ?thesis
    by simp
qed

lemma login_dg_setup_logins:
  "emits is_login (dg_setup_logins w)
     (map (\<lambda>i. Http (LoginReq (TestEmail i) ''test1234'')) [1..<101])"
proof -
  let ?f = "\<lambda>u. Http (LoginReq (u_email u) (u_password u))"
  have "emits is_login (dg_setup_logins w)
          (concat (map (\<lambda>b. map ?f (take loginBatchSize (drop b users))) [0, 20, 40, 60, 80]))"
    unfolding dg_setup_logins_def login_batches
    by (rule emits_fold_each) (rule login_dg_setup_login_batch)
  moreover have "concat (map (\<lambda>b. map ?f (take loginBatchSize (drop b users))) [0, 20, 40, 60, 80])
      = map ?f (concat (map (\<lambda>b. take 20 (drop b users)) [0, 20, 40, 60, 80]))"
    by (simp add: loginBatchSize_def)
  moreover have "concat (map (\<lambda>b. take 20 (drop b users)) [0, 20, 40, 60, 80]) = users"
    by (rule batches_of_20) (simp add: users_def)
  moreover have "map ?f users = map (\<lambda>i. Http (LoginReq (TestEmail i) ''test1234'')) [1..<101]"
    unfolding users_def map_map by (rule map_cong) (simp_all add: mk_user_def)
  ultimately show ?thesis
    by (simp only:)
qed

lemma login_dg_login: "emits is_login (dg_login w em pw) [Http (LoginReq em pw)]"
  by (simp add: emits_def dg_login_def exec_bind)

lemma login_dg_createGroupChat: "quiet is_login (dg_createGroupChat w t ms p)"
  unfolding dg_createGroupChat_def by (intro quiet_rules) simp_all

lemma login_dg_setup_rooms: "quiet is_login (dg_setup_rooms w owner t)"
  unfolding dg_setup_rooms_def dg_setup_room_def
  by (intro quiet_rules quiet_case_prod_acc quiet_http_batch login_dg_createGroupChat) auto

lemma login_dg_setup:
  assumes "profile_of dg_LOAD_PROFILES name \<noteq> Undefined"
  shows "\<exists>es. filter is_login (trace (exec (dg_setup w name) s))
              = filter is_login (trace s)
                @ map (\<lambda>i. Http (LoginReq (TestEmail i) ''test1234'')) [1..<101] @ es"
proof -
  define c where "c = result (dg_setup_logins w) s"
  define s1 where "s1 = exec (dg_setup_logins w) s"
  have s1: "filter is_login (trace s1)
      = filter is_login (trace s) @ map (\<lambda>i. Http (LoginReq (TestEmail i) ''test1234'')) [1..<101]"
    unfolding s1_def by (rule emitsD [OF login_dg_setup_logins])
  have "filter is_login (trace (exec (dg_setup w name) s))
      = filter is_login (trace s1)
        @ (if js_truthy (cache_entry (c 1)) then []
           else [Http (LoginReq (TestEmail 1) ''test1234'')])"
    using assms
    by (cases "profile_of dg_LOAD_PROFILES name")
       (simp_all add: dg_setup_def hd_users mk_user_def Let_def exec_bind result_bind
          exec_attempt split_def c_def s1_def emitsD [OF login_dg_login]
          quietD [OF login_dg_setup_rooms] split: sum.splits)
  then show ?thesis
    unfolding s1 by simp
qed

text \<open>
  C6, as stated, fails: with a profile name that no table has, \<^verbatim>\<open>setup\<close> of cai
  sends the owner's login request. (Here the backend refuses it, and \<^verbatim>\<open>setup\<close>
  goes on to report the failed login and return.)
\<close>

theorem unrecognized_profile_counterexample:
  "profile_of cai_LOAD_PROFILES ''bogus'' = Undefined
   \<and> trace (exec (cai_setup (always 500) ''bogus'') start)
     = [Http (LoginReq (TestEmail 1) ''test1234''), Check ck_login_status False,
        Add authSuccessRate 0, ConsoleError OwnerLoginFailed]"
  by (simp add: profile_of_def cai_LOAD_PROFILES_def Object_prototype_def cai_setup_def hd_users
      mk_user_def cai_login_def exec_bind result_bind always_def answer_def start_def)

text \<open>
  C6, amended. No script checks the profile name. The names that comp and dg
  know are \<^verbatim>\<open>short\<close>, \<^verbatim>\<open>medium\<close> and \<^verbatim>\<open>full\<close>, those of stress \<^verbatim>\<open>light\<close>,
  \<^verbatim>\<open>medium\<close> and \<^verbatim>\<open>full\<close>. For any other name that is not a member of
  \<^verbatim>\<open>Object.prototype\<close>, the profile reads as \<^verbatim>\<open>undefined\<close>, and \<^verbatim>\<open>setup\<close> of these
  three scripts raises a TypeError when a log line reads the length of the profile,
  before it has sent a request or done anything else. For the name of a member of
  \<^verbatim>\<open>Object.prototype\<close>, such as \<^verbatim>\<open>constructor\<close>, the profile reads as that member,
  nothing is raised, and \<^verbatim>\<open>setup\<close> runs as it does for a name it knows: comp sends
  the login request of the owner, dg those of all users. In cai, \<^verbatim>\<open>setup\<close> reads no
  profile: whatever the name, it sends the login request of the owner, and no
  other login request.
\<close>

theorem unrecognized_profile_name:
  "map fst comp_LOAD_PROFILES = [''short'', ''medium'', ''full'']
   \<and> map fst dg_LOAD_PROFILES = [''short'', ''medium'', ''full'']
   \<and> map fst stress_LOAD_PROFILES = [''light'', ''medium'', ''full'']
   \<and> (if name \<in> set (map fst comp_LOAD_PROFILES) \<union> set Object_prototype
       then filter is_login (trace (exec (comp_setup w name) s))
            = filter is_login (trace s) @ [Http (LoginReq (TestEmail 1) ''test1234'')]
       else run_state (comp_setup w name) s = (Inl (Raised TypeError), s))
   \<and> (if name \<in> set (map fst dg_LOAD_PROFILES) \<union> set Object_prototype
       then \<exists>es. filter is_login (trace (exec (dg_setup w name) s))
                 = filter is_login (trace s)
                   @ map (\<lambda>i. Http (LoginReq (TestEmail i) ''test1234'')) [1..<101] @ es
       else run_state (dg_setup w name) s = (Inl (Raised TypeError), s))
   \<and> (if name \<in> set (map fst stress_LOAD_PROFILES) \<union> set Object_prototype
       then run_state (stress_setup w name) s
            = (Inr \<lparr>d_sharedRooms = [], d_tokenCache = None, d_startTime = True\<rparr>, s)
       else run_state (stress_setup w name) s = (Inl (Raised TypeError), s))
   \<and> (name \<in> set Object_prototype \<longrightarrow>
        comp_setup w name = comp_setup w ''short'' \<and> dg_setup w name = dg_setup w ''short''
        \<and> stress_setup w name = stress_setup w ''light'')
   \<and> filter is_login (trace (exec (cai_setup w name) s))
     = filter is_login (trace s) @ [Http (LoginReq (TestEmail 1) ''test1234'')]"
proof -
  have keys: "map fst comp_LOAD_PROFILES = [''short'', ''medium'', ''full'']"
    "map fst dg_LOAD_PROFILES = [''short'', ''medium'', ''full'']"
    "map fst stress_LOAD_PROFILES = [''light'', ''medium'', ''full'']"
    by (simp_all add: comp_LOAD_PROFILES_def dg_LOAD_PROFILES_def stress_LOAD_PROFILES_def)
  have absent: "map_of profiles n = None \<longleftrightarrow> n \<notin> set (map fst profiles)"
    for profiles :: "(string \<times> stage list) list" and n
    by (simp add: map_of_eq_None_iff)
  have undefined: "profile_of profiles name = Undefined
      \<longleftrightarrow> name \<notin> set (map fst profiles) \<union> set Object_prototype" for profiles
    using absent [of profiles name]
    by (cases "map_of profiles name") (auto simp: profile_of_def)
  have inherited: "profile_of profiles n = Inherited" if "n \<in> set Object_prototype"
      "n \<notin> set (map fst profiles)" for profiles n
    using that absent [of profiles n]
    by (cases "map_of profiles n") (auto simp: profile_of_def)
  have own: "\<exists>stages. profile_of comp_LOAD_PROFILES ''short'' = Own stages"
    "\<exists>stages. profile_of dg_LOAD_PROFILES ''short'' = Own stages"
    "\<exists>stages. profile_of stress_LOAD_PROFILES ''light'' = Own stages"
    by (simp_all add: profile_of_def comp_LOAD_PROFILES_def dg_LOAD_PROFILES_def
        stress_LOAD_PROFILES_def)
  have comp: "if name \<in> set (map fst comp_LOAD_PROFILES) \<union> set Object_prototype
       then filter is_login (trace (exec (comp_setup w name) s))
            = filter is_login (trace s) @ [Http (LoginReq (TestEmail 1) ''test1234'')]
       else run_state (comp_setup w name) s = (Inl (Raised TypeError), s)"
    using undefined [of comp_LOAD_PROFILES] login_comp_setup [of name w s]
    by (auto simp: comp_setup_def)
  have dg: "if name \<in> set (map fst dg_LOAD_PROFILES) \<union> set Object_prototype
       then \<exists>es. filter is_login (trace (exec (dg_setup w name) s))
                 = filter is_login (trace s)
                   @ map (\<lambda>i. Http (LoginReq (TestEmail i) ''test1234'')) [1..<101] @ es
       else run_state (dg_setup w name) s = (Inl (Raised TypeError), s)"
    using undefined [of dg_LOAD_PROFILES] login_dg_setup [of name w s]
    by (auto simp: dg_setup_def)
  have stress: "if name \<in> set (map fst stress_LOAD_PROFILES) \<union> set Object_prototype
       then run_state (stress_setup w name) s
            = (Inr \<lparr>d_sharedRooms = [], d_tokenCache = None, d_startTime = True\<rparr>, s)
       else run_state (stress_setup w name) s = (Inl (Raised TypeError), s)"
    using undefined [of stress_LOAD_PROFILES]
    by (cases "profile_of stress_LOAD_PROFILES name") (auto simp: stress_setup_def)
  have same: "name \<in> set Object_prototype \<longrightarrow>
        comp_setup w name = comp_setup w ''short'' \<and> dg_setup w name = dg_setup w ''short''
        \<and> stress_setup w name = stress_setup w ''light''"
  proof
    assume n: "name \<in> set Object_prototype"
    have "name \<notin> set (map fst comp_LOAD_PROFILES)" "name \<notin> set (map fst dg_LOAD_PROFILES)"
      "name \<notin> set (map fst stress_LOAD_PROFILES)"
      using n unfolding keys by (auto simp: Object_prototype_def)
    then have "profile_of comp_LOAD_PROFILES name = Inherited"
      "profile_of dg_LOAD_PROFILES name = Inherited"
      "profile_of stress_LOAD_PROFILES name = Inherited"
      using n by (simp_all add: inherited)
    then show "comp_setup w name = comp_setup w ''short'' \<and> dg_setup w name = dg_setup w ''short''
        \<and> stress_setup w name = stress_setup w ''light''"
      using own by (auto simp: comp_setup_def dg_setup_def stress_setup_def)
  qed
  show ?thesis
    by (intro conjI keys comp dg stress same login_cai_setup)
qed

theorem unrecognized_profile_name_witness:
  "run_state (comp_setup welcoming ''light'') start = (Inl (Raised TypeError), start)
   \<and> run_state (dg_setup welcoming ''bogus'') start = (Inl (Raised TypeError), start)
   \<and> run_state (stress_setup welcoming ''short'') start = (Inl (Raised TypeError), start)
   \<and> filter is_login (trace (exec (comp_setup welcoming ''constructor'') start))
     = [Http (LoginReq (TestEmail 1) ''test1234'')]
   \<and> comp_setup welcoming ''toString'' = comp_setup welcoming ''short''
   \<and> run_state (stress_setup welcoming ''full'') start
     = (Inr \<lparr>d_sharedRooms = [], d_tokenCache = None, d_startTime = True\<rparr>, start)"
proof -
  have none: "filter is_login (trace start) = []"
    by (simp add: start_def)
  have "run_state (comp_setup welcoming ''light'') start = (Inl (Raised TypeError), start)"
    using unrecognized_profile_name [of "''light''" welcoming start]
    by (simp add: Object_prototype_def comp_LOAD_PROFILES_def dg_LOAD_PROFILES_def
        stress_LOAD_PROFILES_def)
  moreover have "run_state (dg_setup welcoming ''bogus'') start = (Inl (Raised TypeError), start)"
    using unrecognized_profile_name [of "''bogus''" welcoming start]
    by (simp add: Object_prototype_def comp_LOAD_PROFILES_def dg_LOAD_PROFILES_def
        stress_LOAD_PROFILES_def)
  moreover have "run_state (stress_setup welcoming ''short'') start
      = (Inl (Raised TypeError), start)"
    using unrecognized_profile_name [of "''short''" welcoming start]
    by (simp add: Object_prototype_def comp_LOAD_PROFILES_def dg_LOAD_PROFILES_def
        stress_LOAD_PROFILES_def)
  moreover have "filter is_login (trace (exec (comp_setup welcoming ''constructor'') start))
      = [Http (LoginReq (TestEmail 1) ''test1234'')]"
  proof -
    from unrecognized_profile_name [of "''constructor''" welcoming start]
    have "if ''constructor'' \<in> set (map fst comp_LOAD_PROFILES) \<union> set Object_prototype
       then filter is_login (trace (exec (comp_setup welcoming ''constructor'') start))
            = filter is_login (trace start) @ [Http (LoginReq (TestEmail 1) ''test1234'')]
       else run_state (comp_setup welcoming ''constructor'') start
            = (Inl (Raised TypeError), start)"
      by blast
    then show ?thesis
      by (simp add: Object_prototype_def none)
  qed
  moreover have "comp_setup welcoming ''toString'' = comp_setup welcoming ''short''"
    using unrecognized_profile_name [of "''toString''" welcoming start]
    by (simp add: Object_prototype_def comp_LOAD_PROFILES_def dg_LOAD_PROFILES_def
        stress_LOAD_PROFILES_def)
  moreover have "run_state (stress_setup welcoming ''full'') start
      = (Inr \<lparr>d_sharedRooms = [], d_tokenCache = None, d_startTime = True\<rparr>, start)"
    using unrecognized_profile_name [of "''full''" welcoming start]
    by (simp add: Object_prototype_def comp_LOAD_PROFILES_def dg_LOAD_PROFILES_def
        stress_LOAD_PROFILES_def)
  ultimately show ?thesis
    by (simp only: simp_thms)
qed

end
